theory Spec2Isabelle
  imports Main
begin

section \<open>Python values\<close>

text \<open>
  The values that flow through \<^verbatim>\<open>rebalance_liquidity\<close>: \<^verbatim>\<open>None\<close>, booleans,
  unbounded integers and strings. Characters are read as ASCII code points. A
  dictionary (the argument of a contract call, the result of \<^verbatim>\<open>wait()\<close>, a liquidity
  position) is an association list in insertion order whose values are such scalars.
\<close>

datatype pyval = PNone | PBool bool | PInt int | PStr string

type_synonym pydict = "(string \<times> pyval) list"

datatype pyobj = Scalar pyval | Dict pydict

text \<open>
  The exceptions of the model: the three the interpreter raises in this code
  (\<^verbatim>\<open>int(None)\<close>, \<^verbatim>\<open>int("abc")\<close>, \<^verbatim>\<open>None.get\<close>) and whatever the wallet SDK raises,
  tagged with its message.
\<close>

datatype exn = TypeError | ValueError | AttributeError | SdkError string

subsection \<open>Truthiness, \<^verbatim>\<open>str()\<close> and \<^verbatim>\<open>dict.get\<close>\<close>

fun py_truthy :: "pyval \<Rightarrow> bool" where
  "py_truthy PNone = False"
| "py_truthy (PBool b) = b"
| "py_truthy (PInt i) = (i \<noteq> 0)"
| "py_truthy (PStr s) = (s \<noteq> [])"

fun obj_truthy :: "pyobj \<Rightarrow> bool" where
  "obj_truthy (Scalar v) = py_truthy v"
| "obj_truthy (Dict d) = (d \<noteq> [])"

definition digit_char :: "nat \<Rightarrow> char" where
  "digit_char d = char_of (48 + d)"

function str_nat :: "nat \<Rightarrow> string" where
  "str_nat n = (if n < 10 then [digit_char n] else str_nat (n div 10) @ [digit_char (n mod 10)])"
  by pat_completeness auto
termination
  by (relation "measure id") auto

declare str_nat.simps [simp del]

definition str_int :: "int \<Rightarrow> string" where
  "str_int i = (if i < 0 then CHR ''-'' # str_nat (nat (- i)) else str_nat (nat i))"

fun py_str :: "pyval \<Rightarrow> string" where
  "py_str PNone = ''None''"
| "py_str (PBool b) = (if b then ''True'' else ''False'')"
| "py_str (PInt i) = str_int i"
| "py_str (PStr s) = s"

definition dict_get :: "pydict \<Rightarrow> string \<Rightarrow> pyval \<Rightarrow> pyval" where
  "dict_get d k dflt = (case map_of d k of None \<Rightarrow> dflt | Some v \<Rightarrow> v)"

text \<open>\<^verbatim>\<open>obj.get(key, default)\<close>: only a dictionary has the method.\<close>

definition py_get :: "pyobj \<Rightarrow> string \<Rightarrow> pyval \<Rightarrow> exn + pyval" where
  "py_get obj k dflt = (case obj of Dict d \<Rightarrow> Inr (dict_get d k dflt) | Scalar _ \<Rightarrow> Inl AttributeError)"

subsection \<open>\<^verbatim>\<open>int()\<close>\<close>

text \<open>
  \<^verbatim>\<open>int(x)\<close>: \<^verbatim>\<open>None\<close> raises TypeError, a boolean or an integer converts, a string
  is stripped of surrounding whitespace (tab, line feed, vertical tab, form feed,
  carriage return, space) and must then be an optional sign followed by
  decimal digits, single underscores allowed between digits; anything else raises
  ValueError. (The interpreter's optional cap on the number of digits is not modelled.)
\<close>

definition is_space :: "char \<Rightarrow> bool" where
  "is_space c = (let n = of_char c :: nat in (9 \<le> n \<and> n \<le> 13) \<or> n = 32)"

definition digit_val :: "char \<Rightarrow> nat option" where
  "digit_val c = (let n = of_char c :: nat in if 48 \<le> n \<and> n \<le> 57 then Some (n - 48) else None)"

fun int_digits :: "nat \<Rightarrow> string \<Rightarrow> nat option" where
  "int_digits acc [] = Some acc"
| "int_digits acc [c] =
     (case digit_val c of None \<Rightarrow> None | Some v \<Rightarrow> Some (10 * acc + v))"
| "int_digits acc (c # d # ds) =
     (if c = CHR ''_'' then
        (case digit_val d of None \<Rightarrow> None | Some v \<Rightarrow> int_digits (10 * acc + v) ds)
      else
        (case digit_val c of None \<Rightarrow> None | Some v \<Rightarrow> int_digits (10 * acc + v) (d # ds)))"

definition int_literal :: "string \<Rightarrow> nat option" where
  "int_literal s =
     (case s of [] \<Rightarrow> None
      | c # cs \<Rightarrow> (case digit_val c of None \<Rightarrow> None | Some v \<Rightarrow> int_digits v cs))"

definition strip :: "string \<Rightarrow> string" where
  "strip s = rev (dropWhile is_space (rev (dropWhile is_space s)))"

definition int_of_str :: "string \<Rightarrow> int option" where
  "int_of_str s =
     (case strip s of [] \<Rightarrow> None
      | c # cs \<Rightarrow>
          if c = CHR ''-'' then map_option (\<lambda>n. - int n) (int_literal cs)
          else if c = CHR ''+'' then map_option int (int_literal cs)
          else map_option int (int_literal (c # cs)))"

fun py_int :: "pyval \<Rightarrow> exn + int" where
  "py_int PNone = Inl TypeError"
| "py_int (PBool b) = Inr (if b then 1 else 0)"
| "py_int (PInt i) = Inr i"
| "py_int (PStr s) = (case int_of_str s of None \<Rightarrow> Inl ValueError | Some i \<Rightarrow> Inr i)"

section \<open>The wallet and the log of a run\<close>

text \<open>
  The wallet is external. A handle stands for the object \<^verbatim>\<open>invoke_contract\<close> returns;
  \<^verbatim>\<open>wait\<close> is called on it. Every call on the wallet and every \<^verbatim>\<open>print\<close> is
  appended to the log of the run, a wallet call together with what it answered (an
  exception or a value). The wallet answers as a function of the log so far, so its
  answers may depend on everything done before in the run.
\<close>

type_synonym invocation = nat

datatype event =
    Print string
  | GetLiquidityPosition string "exn + pyobj"
  | HasTokenApproval string string "exn + bool"
  | InvokeContract string string pydict "exn + invocation"
  | Wait invocation "exn + pyobj"

record wallet =
  address :: string
  invoke_contract :: "event list \<Rightarrow> string \<Rightarrow> string \<Rightarrow> pydict \<Rightarrow> exn + invocation"
  wait :: "event list \<Rightarrow> invocation \<Rightarrow> exn + pyobj"
  get_liquidity_position :: "event list \<Rightarrow> string \<Rightarrow> exn + pyobj"
  has_token_approval :: "event list \<Rightarrow> string \<Rightarrow> string \<Rightarrow> exn + bool"

text \<open>
  A computation takes the log and returns the extended log with an exception or a
  value; \<open>seq\<close> stops at the first exception, as a raise leaves the function.
\<close>

type_synonym 'a io = "event list \<Rightarrow> event list \<times> (exn + 'a)"

definition ret :: "'a \<Rightarrow> 'a io" where
  "ret x = (\<lambda>log. (log, Inr x))"

definition lift :: "exn + 'a \<Rightarrow> 'a io" where
  "lift r = (\<lambda>log. (log, r))"

definition seq :: "'a io \<Rightarrow> ('a \<Rightarrow> 'b io) \<Rightarrow> 'b io" where
  "seq m f = (\<lambda>log. case m log of (log', Inl e) \<Rightarrow> (log', Inl e) | (log', Inr x) \<Rightarrow> f x log')"

definition print_line :: "string \<Rightarrow> unit io" where
  "print_line s = (\<lambda>log. (log @ [Print s], Inr ()))"

definition call_invoke_contract :: "wallet \<Rightarrow> string \<Rightarrow> string \<Rightarrow> pydict \<Rightarrow> invocation io" where
  "call_invoke_contract w c m a =
     (\<lambda>log. let r = invoke_contract w log c m a in (log @ [InvokeContract c m a r], r))"

definition call_wait :: "wallet \<Rightarrow> invocation \<Rightarrow> pyobj io" where
  "call_wait w i = (\<lambda>log. let r = wait w log i in (log @ [Wait i r], r))"

definition call_get_liquidity_position :: "wallet \<Rightarrow> string \<Rightarrow> pyobj io" where
  "call_get_liquidity_position w p =
     (\<lambda>log. let r = get_liquidity_position w log p in (log @ [GetLiquidityPosition p r], r))"

definition call_has_token_approval :: "wallet \<Rightarrow> string \<Rightarrow> string \<Rightarrow> bool io" where
  "call_has_token_approval w t s =
     (\<lambda>log. let r = has_token_approval w log t s in (log @ [HasTokenApproval t s r], r))"

section \<open>The action of the core package\<close>

text \<open>
  \<^verbatim>\<open>rebalance_liquidity\<close> of \<^verbatim>\<open>cdp_agentkit_core/actions/defi/rebalance_liquidity.py\<close>.
  The ticks are integers and the addresses and amounts strings, as annotated; the
  existing token id and liquidity default to \<^verbatim>\<open>None\<close> and are arbitrary values.
\<close>

definition NM_POSITION_MANAGER :: string where
  "NM_POSITION_MANAGER = ''0x03a520b32C04BF3bEEf7BEb72E919cf822Ed34f1''"

definition fee :: int where
  "fee = 3000"

definition deadline :: int where
  "deadline = 9999999999"

definition invalid_position_message :: string where
  "invalid_position_message = ''Existing liquidity position is invalid or has zero liquidity.''"

definition created_message :: "pyval \<Rightarrow> string \<Rightarrow> int \<Rightarrow> int \<Rightarrow> string" where
  "created_message tokenId pool tick_a tick_b =
     ''Liquidity position created with token ID '' @ py_str tokenId @ '' in pool '' @ pool
     @ '' with tick range ['' @ str_int tick_a @ '', '' @ str_int tick_b @ ''].''"

definition rebalanced_message :: "pyval \<Rightarrow> pyval \<Rightarrow> string \<Rightarrow> int \<Rightarrow> int \<Rightarrow> string" where
  "rebalanced_message tokenId new_tokenId pool tick_a tick_b =
     ''Liquidity position rebalanced. Old position (token ID '' @ py_str tokenId @ '') removed. ''
     @ ''New liquidity position created with token ID '' @ py_str new_tokenId @ '' in pool '' @ pool
     @ '' '' @ ''with tick range ['' @ str_int tick_a @ '', '' @ str_int tick_b @ ''].''"

definition mint_args ::
  "wallet \<Rightarrow> int \<Rightarrow> int \<Rightarrow> string \<Rightarrow> string \<Rightarrow> string \<Rightarrow> string \<Rightarrow> string \<Rightarrow> pydict" where
  "mint_args w tick_a tick_b pool token0 token1 amount0Desired amount1Desired =
     [(''token0'', PStr token0),
      (''token1'', PStr token1),
      (''fee'', PInt fee),
      (''tickLower'', PInt tick_a),
      (''tickUpper'', PInt tick_b),
      (''amount0Desired'', PStr amount0Desired),
      (''amount1Desired'', PStr amount1Desired),
      (''amount0Min'', PStr ''0''),
      (''amount1Min'', PStr ''0''),
      (''recipient'', PStr (address w)),
      (''deadline'', PInt deadline),
      (''pool'', PStr pool)]"

definition decrease_args :: "pyval \<Rightarrow> pyval \<Rightarrow> string \<Rightarrow> pydict" where
  "decrease_args tokenId liquidity pool =
     [(''tokenId'', tokenId),
      (''liquidity'', liquidity),
      (''amount0Min'', PStr ''0''),
      (''amount1Min'', PStr ''0''),
      (''deadline'', PInt deadline),
      (''pool'', PStr pool)]"

definition collect_args :: "wallet \<Rightarrow> pyval \<Rightarrow> string \<Rightarrow> string \<Rightarrow> pydict" where
  "collect_args w tokenId amount0Desired amount1Desired =
     [(''tokenId'', tokenId),
      (''recipient'', PStr (address w)),
      (''amount0Max'', PStr amount0Desired),
      (''amount1Max'', PStr amount1Desired)]"

definition burn_args :: "pyval \<Rightarrow> string \<Rightarrow> pydict" where
  "burn_args tokenId pool = [(''tokenId'', tokenId), (''pool'', PStr pool)]"

text \<open>
  The guard \<^verbatim>\<open>not tokenId or int(liquidity) == 0\<close>: \<^verbatim>\<open>or\<close> evaluates
  \<^verbatim>\<open>int(liquidity)\<close> only when the token id is truthy, and the conversion may raise.
\<close>

definition position_invalid :: "pyval \<Rightarrow> pyval \<Rightarrow> exn + bool" where
  "position_invalid tokenId liquidity =
     (if \<not> py_truthy tokenId then Inr True
      else (case py_int liquidity of Inl e \<Rightarrow> Inl e | Inr n \<Rightarrow> Inr (n = 0)))"

definition rebalance_liquidity ::
  "wallet \<Rightarrow> int \<Rightarrow> int \<Rightarrow> string \<Rightarrow> string \<Rightarrow> string \<Rightarrow> string \<Rightarrow> string \<Rightarrow> bool \<Rightarrow> pyval \<Rightarrow> pyval
     \<Rightarrow> event list \<times> (exn + string)" where
  "rebalance_liquidity w tick_a tick_b pool token0 token1 amount0Desired amount1Desired
       existing_position existing_tokenId existing_liquidity =
     (if \<not> existing_position then
        seq (print_line ''Minting new liquidity position...'') (\<lambda>_.
        seq (call_invoke_contract w NM_POSITION_MANAGER ''mint''
               (mint_args w tick_a tick_b pool token0 token1 amount0Desired amount1Desired))
          (\<lambda>invocation.
        seq (call_wait w invocation) (\<lambda>result.
        seq (lift (py_get result ''tokenId'' (PStr ''unknown''))) (\<lambda>tokenId.
        ret (created_message tokenId pool tick_a tick_b)))))
      else
        seq (lift (position_invalid existing_tokenId existing_liquidity)) (\<lambda>invalid.
        if invalid then ret invalid_position_message
        else
          seq (print_line (''Removing liquidity from existing position (token ID ''
                 @ py_str existing_tokenId @ '')...'')) (\<lambda>_.
          seq (call_invoke_contract w NM_POSITION_MANAGER ''decreaseLiquidity''
                 (decrease_args existing_tokenId existing_liquidity pool)) (\<lambda>invocation.
          seq (call_wait w invocation) (\<lambda>_.
          seq (print_line ''Collecting fees from the old position...'') (\<lambda>_.
          seq (call_invoke_contract w NM_POSITION_MANAGER ''collect''
                 (collect_args w existing_tokenId amount0Desired amount1Desired)) (\<lambda>invocation.
          seq (call_wait w invocation) (\<lambda>_.
          seq (print_line (''Burning old liquidity position (token ID ''
                 @ py_str existing_tokenId @ '')...'')) (\<lambda>_.
          seq (call_invoke_contract w NM_POSITION_MANAGER ''burn''
                 (burn_args existing_tokenId pool)) (\<lambda>invocation.
          seq (call_wait w invocation) (\<lambda>_.
          seq (print_line ''Minting new liquidity position with updated tick range...'') (\<lambda>_.
          seq (call_invoke_contract w NM_POSITION_MANAGER ''mint''
                 (mint_args w tick_a tick_b pool token0 token1 amount0Desired amount1Desired))
            (\<lambda>invocation.
          seq (call_wait w invocation) (\<lambda>result.
          seq (lift (py_get result ''tokenId'' (PStr ''unknown''))) (\<lambda>new_tokenId.
          ret (rebalanced_message existing_tokenId new_tokenId pool tick_a tick_b))))))))))))))))
     []"

section \<open>The action of the example chatbot\<close>

text \<open>
  \<^verbatim>\<open>rebalance_liquidity\<close> of \<^verbatim>\<open>examples/cdp-langchain-chatbot/chatbot.py\<close>. It asks the
  wallet for the position, requests the missing token approvals before a first mint,
  and compares the liquidity with the string \<^verbatim>\<open>"0"\<close>. Its dictionaries carry no
  \<^verbatim>\<open>pool\<close> entry.
\<close>

definition chatbot_NM_POSITION_MANAGER :: string where
  "chatbot_NM_POSITION_MANAGER = ''0x27F971cb582BF9E50F397e4d29a5C7A34f11faA2''"

definition chatbot_mint_args ::
  "wallet \<Rightarrow> int \<Rightarrow> int \<Rightarrow> string \<Rightarrow> string \<Rightarrow> string \<Rightarrow> string \<Rightarrow> pydict" where
  "chatbot_mint_args w tick_a tick_b token0 token1 amount0Desired amount1Desired =
     [(''token0'', PStr token0),
      (''token1'', PStr token1),
      (''fee'', PInt fee),
      (''tickLower'', PInt tick_a),
      (''tickUpper'', PInt tick_b),
      (''amount0Desired'', PStr amount0Desired),
      (''amount1Desired'', PStr amount1Desired),
      (''amount0Min'', PStr ''0''),
      (''amount1Min'', PStr ''0''),
      (''recipient'', PStr (address w)),
      (''deadline'', PInt deadline)]"

definition chatbot_decrease_args :: "pyval \<Rightarrow> pyval \<Rightarrow> pydict" where
  "chatbot_decrease_args tokenId liquidity =
     [(''tokenId'', tokenId),
      (''liquidity'', liquidity),
      (''amount0Min'', PStr ''0''),
      (''amount1Min'', PStr ''0''),
      (''deadline'', PInt deadline)]"

definition approve_args :: "string \<Rightarrow> pydict" where
  "approve_args amount = [(''spender'', PStr chatbot_NM_POSITION_MANAGER), (''value'', PStr amount)]"

text \<open>
  The two approval blocks of the source differ in the token, the amount and the name
  printed (\<^verbatim>\<open>token0\<close> or \<^verbatim>\<open>token1\<close>) only.
\<close>

definition ensure_approval :: "wallet \<Rightarrow> string \<Rightarrow> string \<Rightarrow> string \<Rightarrow> unit io" where
  "ensure_approval w name token amount =
     seq (call_has_token_approval w token chatbot_NM_POSITION_MANAGER) (\<lambda>approved.
     if \<not> approved then
       seq (print_line (''Requesting approval for '' @ name @ '' ('' @ token @ '')...'')) (\<lambda>_.
       seq (call_invoke_contract w token ''approve'' (approve_args amount)) (\<lambda>approval_tx.
       seq (call_wait w approval_tx) (\<lambda>_.
       ret ())))
     else ret ())"

text \<open>The guard \<^verbatim>\<open>not tokenId or liquidity == "0"\<close>: only the string \<^verbatim>\<open>"0"\<close> equals \<^verbatim>\<open>"0"\<close>.\<close>

definition chatbot_position_invalid :: "pyval \<Rightarrow> pyval \<Rightarrow> bool" where
  "chatbot_position_invalid tokenId liquidity = (\<not> py_truthy tokenId \<or> liquidity = PStr ''0'')"

definition chatbot_rebalance_liquidity ::
  "wallet \<Rightarrow> int \<Rightarrow> int \<Rightarrow> string \<Rightarrow> string \<Rightarrow> string \<Rightarrow> string \<Rightarrow> string
     \<Rightarrow> event list \<times> (exn + string)" where
  "chatbot_rebalance_liquidity w tick_a tick_b pool token0 token1 amount0Desired amount1Desired =
     seq (call_get_liquidity_position w pool) (\<lambda>position.
     if \<not> obj_truthy position then
       seq (ensure_approval w ''token0'' token0 amount0Desired) (\<lambda>_.
       seq (ensure_approval w ''token1'' token1 amount1Desired) (\<lambda>_.
       seq (print_line ''Minting new liquidity position...'') (\<lambda>_.
       seq (call_invoke_contract w chatbot_NM_POSITION_MANAGER ''mint''
              (chatbot_mint_args w tick_a tick_b token0 token1 amount0Desired amount1Desired))
         (\<lambda>invocation.
       seq (call_wait w invocation) (\<lambda>result.
       seq (lift (py_get result ''tokenId'' (PStr ''unknown''))) (\<lambda>tokenId.
       ret (created_message tokenId pool tick_a tick_b)))))))
     else
       seq (lift (py_get position ''tokenId'' PNone)) (\<lambda>tokenId.
       seq (lift (py_get position ''liquidity'' PNone)) (\<lambda>liquidity.
       if chatbot_position_invalid tokenId liquidity then ret invalid_position_message
       else
         seq (print_line (''Removing liquidity from existing position (token ID ''
                @ py_str tokenId @ '')...'')) (\<lambda>_.
         seq (call_invoke_contract w chatbot_NM_POSITION_MANAGER ''decreaseLiquidity''
                (chatbot_decrease_args tokenId liquidity)) (\<lambda>invocation.
         seq (call_wait w invocation) (\<lambda>_.
         seq (print_line ''Collecting fees from the old position...'') (\<lambda>_.
         seq (call_invoke_contract w chatbot_NM_POSITION_MANAGER ''collect''
                (collect_args w tokenId amount0Desired amount1Desired)) (\<lambda>invocation.
         seq (call_wait w invocation) (\<lambda>_.
         seq (print_line (''Burning old liquidity position (token ID ''
                @ py_str tokenId @ '')...'')) (\<lambda>_.
         seq (call_invoke_contract w chatbot_NM_POSITION_MANAGER ''burn''
                [(''tokenId'', tokenId)]) (\<lambda>invocation.
         seq (call_wait w invocation) (\<lambda>_.
         seq (print_line ''Minting new liquidity position with updated tick range...'') (\<lambda>_.
         seq (call_invoke_contract w chatbot_NM_POSITION_MANAGER ''mint''
                (chatbot_mint_args w tick_a tick_b token0 token1 amount0Desired amount1Desired))
           (\<lambda>invocation.
         seq (call_wait w invocation) (\<lambda>result.
         seq (lift (py_get result ''tokenId'' (PStr ''unknown''))) (\<lambda>new_tokenId.
         ret (rebalanced_message tokenId new_tokenId pool tick_a tick_b)))))))))))))))))
     []"

section \<open>Reading the log\<close>

text \<open>The contract invocations of a run, in order: contract address, method, arguments.\<close>

fun invocations :: "event list \<Rightarrow> (string \<times> string \<times> pydict) list" where
  "invocations [] = []"
| "invocations (InvokeContract c m a r # evs) = (c, m, a) # invocations evs"
| "invocations (ev # evs) = invocations evs"

definition invoked_methods :: "event list \<Rightarrow> string list" where
  "invoked_methods log = map (\<lambda>(c, m, a). m) (invocations log)"

text \<open>The token approvals the wallet reported missing.\<close>

fun missing_approvals :: "event list \<Rightarrow> nat" where
  "missing_approvals [] = 0"
| "missing_approvals (HasTokenApproval t s (Inr False) # evs) = Suc (missing_approvals evs)"
| "missing_approvals (ev # evs) = missing_approvals evs"

text \<open>The exception a wallet call answered with, if it did.\<close>

fun raised :: "event \<Rightarrow> exn option" where
  "raised (Print s) = None"
| "raised (GetLiquidityPosition p r) = (case r of Inl e \<Rightarrow> Some e | Inr _ \<Rightarrow> None)"
| "raised (HasTokenApproval t s r) = (case r of Inl e \<Rightarrow> Some e | Inr _ \<Rightarrow> None)"
| "raised (InvokeContract c m a r) = (case r of Inl e \<Rightarrow> Some e | Inr _ \<Rightarrow> None)"
| "raised (Wait i r) = (case r of Inl e \<Rightarrow> Some e | Inr _ \<Rightarrow> None)"

text \<open>
  A wallet call that raised is the last event of the log, and its exception is the
  outcome of the run.
\<close>

fun failure_is_final :: "event list \<Rightarrow> exn + string \<Rightarrow> bool" where
  "failure_is_final [] out = True"
| "failure_is_final (ev # evs) out =
     (case raised ev of
        None \<Rightarrow> failure_is_final evs out
      | Some e \<Rightarrow> evs = [] \<and> out = Inl e)"

text \<open>
  With \<open>pending\<close> the invocation issued and not yet confirmed: an invocation is issued
  only while none is pending, a wait is for the pending one, and only a wait that
  returns confirms it.
\<close>

fun confirmed_in_order :: "invocation option \<Rightarrow> event list \<Rightarrow> bool" where
  "confirmed_in_order pending [] = True"
| "confirmed_in_order pending (InvokeContract c m a r # evs) =
     (pending = None \<and> confirmed_in_order (case r of Inl e \<Rightarrow> None | Inr i \<Rightarrow> Some i) evs)"
| "confirmed_in_order pending (Wait i r # evs) =
     (pending = Some i \<and> confirmed_in_order (case r of Inl e \<Rightarrow> pending | Inr x \<Rightarrow> None) evs)"
| "confirmed_in_order pending (ev # evs) = confirmed_in_order pending evs"

text \<open>
  The result of the mint that ends the log: the last event is a wait that returned, on
  the handle of a \<^verbatim>\<open>mint\<close> invocation issued just before it.
\<close>

definition final_mint_result :: "event list \<Rightarrow> pyobj option" where
  "final_mint_result log =
     (case rev log of
        Wait i (Inr res) # InvokeContract c m a (Inr j) # evs \<Rightarrow>
          if m = ''mint'' \<and> i = j then Some res else None
      | _ \<Rightarrow> None)"

text \<open>The value \<^verbatim>\<open>result.get("tokenId", "unknown")\<close> of that result.\<close>

definition minted_tokenId :: "event list \<Rightarrow> pyval option" where
  "minted_tokenId log =
     (case final_mint_result log of
        None \<Rightarrow> None
      | Some res \<Rightarrow> (case py_get res ''tokenId'' (PStr ''unknown'') of Inl e \<Rightarrow> None | Inr v \<Rightarrow> Some v))"

text \<open>A property of the method and the arguments of every contract invocation of the log.\<close>

definition every_invocation :: "(string \<Rightarrow> pydict \<Rightarrow> bool) \<Rightarrow> event list \<Rightarrow> bool" where
  "every_invocation P log = list_all (\<lambda>(c, m, a). P m a) (invocations log)"

definition fee_and_deadline_fixed :: "string \<Rightarrow> pydict \<Rightarrow> bool" where
  "fee_and_deadline_fixed m a =
     (if m = ''mint'' then
        map_of a ''fee'' = Some (PInt 3000) \<and> map_of a ''deadline'' = Some (PInt 9999999999)
      else if m = ''decreaseLiquidity'' then map_of a ''deadline'' = Some (PInt 9999999999)
      else True)"

definition minimum_amounts_zero :: "string \<Rightarrow> pydict \<Rightarrow> bool" where
  "minimum_amounts_zero m a =
     (if m = ''mint'' \<or> m = ''decreaseLiquidity'' then
        map_of a ''amount0Min'' = Some (PStr ''0'') \<and> map_of a ''amount1Min'' = Some (PStr ''0'')
      else True)"

definition collect_maxima :: "string \<Rightarrow> string \<Rightarrow> string \<Rightarrow> pydict \<Rightarrow> bool" where
  "collect_maxima amount0Desired amount1Desired m a =
     (if m = ''collect'' then
        map_of a ''amount0Max'' = Some (PStr amount0Desired)
        \<and> map_of a ''amount1Max'' = Some (PStr amount1Desired)
      else True)"

section \<open>Wallets to run the actions on\<close>

text \<open>
  The wallet of the package's tests, with a position, an approval answer, a method
  whose invocation reverts and a result of \<^verbatim>\<open>wait()\<close> to choose. An invocation's handle
  is the length of the log when it was issued.
\<close>

definition mock_wallet :: "pyobj \<Rightarrow> bool \<Rightarrow> string \<Rightarrow> pyobj \<Rightarrow> wallet" where
  "mock_wallet position approved failing result =
     \<lparr> address = ''0xDummyWalletAddress'',
       invoke_contract =
         (\<lambda>log c m a. if m = failing then Inl (SdkError ''reverted'') else Inr (length log)),
       wait = (\<lambda>log i. Inr result),
       get_liquidity_position = (\<lambda>log p. Inr position),
       has_token_approval = (\<lambda>log t s. Inr approved) \<rparr>"

definition new_position :: pyobj where
  "new_position = Dict [(''tokenId'', PStr ''5678'')]"

text \<open>No position, approvals in place, nothing reverts.\<close>

definition test_wallet :: wallet where
  "test_wallet = mock_wallet (Scalar PNone) True [] new_position"

text \<open>No position and no approval.\<close>

definition unapproved_wallet :: wallet where
  "unapproved_wallet = mock_wallet (Scalar PNone) False [] new_position"

text \<open>The \<^verbatim>\<open>burn\<close> reverts.\<close>

definition burn_reverts_wallet :: wallet where
  "burn_reverts_wallet = mock_wallet (Scalar PNone) True ''burn'' new_position"

text \<open>A wallet that reports a position with the given liquidity.\<close>

definition position_wallet :: "pyval \<Rightarrow> wallet" where
  "position_wallet liquidity =
     mock_wallet (Dict [(''tokenId'', PStr ''1234''), (''liquidity'', liquidity)]) True [] new_position"

text \<open>A wallet that reports a position and whose \<^verbatim>\<open>burn\<close> reverts.\<close>

definition position_burn_reverts_wallet :: wallet where
  "position_burn_reverts_wallet =
     mock_wallet (Dict [(''tokenId'', PStr ''1234''), (''liquidity'', PStr ''1000'')]) True ''burn''
       new_position"

section \<open>Runs, step by step\<close>

text \<open>
  \<open>all_from log C m\<close>: the outcome of \<open>m\<close>, started on \<open>log\<close>, satisfies \<open>C\<close>. The rules
  below follow a computation one step at a time, once for each answer of the wallet.
\<close>

definition all_from :: "event list \<Rightarrow> (event list \<Rightarrow> exn + 'a \<Rightarrow> bool) \<Rightarrow> 'a io \<Rightarrow> bool" where
  "all_from log C m = C (fst (m log)) (snd (m log))"

lemma all_fromD: "all_from [] C m \<Longrightarrow> C (fst (m [])) (snd (m []))"
  by (simp add: all_from_def)

lemma all_from_ret: "C log (Inr x) \<Longrightarrow> all_from log C (ret x)"
  by (simp add: all_from_def ret_def)

lemma all_from_if:
  "(b \<Longrightarrow> all_from log C m1) \<Longrightarrow> (\<not> b \<Longrightarrow> all_from log C m2)
     \<Longrightarrow> all_from log C (if b then m1 else m2)"
  by simp

lemma all_from_lift:
  "(\<And>e. r = Inl e \<Longrightarrow> C log (Inl e)) \<Longrightarrow> (\<And>x. r = Inr x \<Longrightarrow> all_from log C (f x))
     \<Longrightarrow> all_from log C (seq (lift r) f)"
  by (cases r) (simp_all add: all_from_def seq_def lift_def)

lemma all_from_print:
  "all_from (log @ [Print s]) C (f ()) \<Longrightarrow> all_from log C (seq (print_line s) f)"
  by (simp add: all_from_def seq_def print_line_def)

lemma all_from_invoke:
  "(\<And>e. invoke_contract w log c m a = Inl e \<Longrightarrow> C (log @ [InvokeContract c m a (Inl e)]) (Inl e))
     \<Longrightarrow> (\<And>i. invoke_contract w log c m a = Inr i
            \<Longrightarrow> all_from (log @ [InvokeContract c m a (Inr i)]) C (f i))
     \<Longrightarrow> all_from log C (seq (call_invoke_contract w c m a) f)"
  by (cases "invoke_contract w log c m a")
     (simp_all add: all_from_def seq_def call_invoke_contract_def Let_def)

lemma all_from_wait:
  "(\<And>e. wait w log i = Inl e \<Longrightarrow> C (log @ [Wait i (Inl e)]) (Inl e))
     \<Longrightarrow> (\<And>x. wait w log i = Inr x \<Longrightarrow> all_from (log @ [Wait i (Inr x)]) C (f x))
     \<Longrightarrow> all_from log C (seq (call_wait w i) f)"
  by (cases "wait w log i")
     (simp_all add: all_from_def seq_def call_wait_def Let_def)

lemma all_from_get_position:
  "(\<And>e. get_liquidity_position w log p = Inl e
        \<Longrightarrow> C (log @ [GetLiquidityPosition p (Inl e)]) (Inl e))
     \<Longrightarrow> (\<And>x. get_liquidity_position w log p = Inr x
            \<Longrightarrow> all_from (log @ [GetLiquidityPosition p (Inr x)]) C (f x))
     \<Longrightarrow> all_from log C (seq (call_get_liquidity_position w p) f)"
  by (cases "get_liquidity_position w log p")
     (simp_all add: all_from_def seq_def call_get_liquidity_position_def Let_def)

lemma all_from_has_approval:
  "(\<And>e. has_token_approval w log t s = Inl e
        \<Longrightarrow> C (log @ [HasTokenApproval t s (Inl e)]) (Inl e))
     \<Longrightarrow> (\<And>x. has_token_approval w log t s = Inr x
            \<Longrightarrow> all_from (log @ [HasTokenApproval t s (Inr x)]) C (f x))
     \<Longrightarrow> all_from log C (seq (call_has_token_approval w t s) f)"
  by (cases "has_token_approval w log t s")
     (simp_all add: all_from_def seq_def call_has_token_approval_def Let_def)

lemmas all_from_rules =
  all_from_ret all_from_if all_from_lift all_from_print all_from_invoke all_from_wait
  all_from_get_position all_from_has_approval

text \<open>The approval block runs in sequence with what follows it.\<close>

lemma seq_assoc: "seq (seq m g) f = seq m (\<lambda>x. seq (g x) f)"
  by (auto simp: seq_def fun_eq_iff split: prod.splits sum.splits)

lemma seq_if: "seq (if b then m1 else m2) f = (if b then seq m1 f else seq m2 f)"
  by simp

lemma seq_ret: "seq (ret x) f = f x"
  by (simp add: seq_def ret_def)

lemmas chatbot_unfold = chatbot_rebalance_liquidity_def ensure_approval_def seq_assoc seq_if seq_ret

lemmas args_defs =
  mint_args_def decrease_args_def collect_args_def burn_args_def chatbot_mint_args_def
  chatbot_decrease_args_def approve_args_def fee_def deadline_def

lemmas wallet_defs =
  test_wallet_def unapproved_wallet_def burn_reverts_wallet_def position_wallet_def
  position_burn_reverts_wallet_def
  mock_wallet_def new_position_def

lemmas int_defs = int_of_str_def strip_def is_space_def int_literal_def digit_val_def

lemma py_int_examples:
  "py_int (PStr ''0'') = Inr 0" "py_int (PStr ''00'') = Inr 0"
  "py_int (PStr ''1000'') = Inr 1000" "py_int (PStr ''abc'') = Inl ValueError"
  by (simp_all add: int_defs)

lemma str_int_1000: "str_int 1000 = ''1000''"
  by code_simp

lemma str_int_2000: "str_int 2000 = ''2000''"
  by code_simp

lemmas str_int_examples = str_int_1000 str_int_2000

section \<open>The guard on the existing position\<close>

text \<open>
  The early return: a token id that is missing or empty (\<^verbatim>\<open>None\<close>, the empty string, any
  falsy value) gives the validation message with an empty log, whatever the liquidity
  is, since \<^verbatim>\<open>int()\<close> is then not evaluated; so does a present token id with a liquidity
  that \<^verbatim>\<open>int()\<close> reads as zero.
\<close>

lemma falsy_id_returns_message:
  "\<not> py_truthy tokenId \<Longrightarrow>
     rebalance_liquidity w tick_a tick_b pool token0 token1 amount0 amount1 True tokenId liquidity
       = ([], Inr invalid_position_message)"
  by (simp add: rebalance_liquidity_def position_invalid_def seq_def lift_def ret_def)

lemma zero_liquidity_returns_message:
  "py_int liquidity = Inr 0 \<Longrightarrow>
     rebalance_liquidity w tick_a tick_b pool token0 token1 amount0 amount1 True tokenId liquidity
       = ([], Inr invalid_position_message)"
  by (simp add: rebalance_liquidity_def position_invalid_def seq_def lift_def ret_def)

text \<open>
  Beyond the early return: a token id that is present with a liquidity that is \<^verbatim>\<open>None\<close>
  or not a number makes \<^verbatim>\<open>int()\<close> raise, before any contract invocation.
\<close>

lemma present_id_bad_liquidity_raises:
  "py_truthy tokenId \<Longrightarrow> py_int liquidity = Inl e \<Longrightarrow>
     rebalance_liquidity w tick_a tick_b pool token0 token1 amount0 amount1 True tokenId liquidity
       = ([], Inl e)"
  by (simp add: rebalance_liquidity_def position_invalid_def seq_def lift_def)

lemma py_int_not_numbers:
  "py_int PNone = Inl TypeError" "py_int (PStr []) = Inl ValueError"
  "py_int (PStr ''abc'') = Inl ValueError" "py_int (PStr ''0.0'') = Inl ValueError"
  by (simp_all add: int_defs)

text \<open>
  C2. The core action does not return the validation message for every position that is
  invalid. With an existing position indicated and the token id \<^verbatim>\<open>1234\<close>: a liquidity
  left at \<^verbatim>\<open>None\<close>, the default of the parameter, makes the guard raise TypeError, and
  the liquidities \<^verbatim>\<open>""\<close>, \<^verbatim>\<open>"abc"\<close> and \<^verbatim>\<open>"0.0"\<close> make it raise ValueError. The log
  is empty: the exception leaves the function before any contract invocation, and no
  string is returned.
\<close>

theorem present_id_none_liquidity_raises:
  "rebalance_liquidity test_wallet 1000 2000 ''0xPoolAddress''
       ''0xToken0Address'' ''0xToken1Address'' ''1000000000000000000'' ''2000000000000000000''
       True (PStr ''1234'') PNone
     = ([], Inl TypeError)
   \<and> rebalance_liquidity test_wallet 1000 2000 ''0xPoolAddress''
       ''0xToken0Address'' ''0xToken1Address'' ''1000000000000000000'' ''2000000000000000000''
       True (PStr ''1234'') (PStr [])
     = ([], Inl ValueError)
   \<and> rebalance_liquidity test_wallet 1000 2000 ''0xPoolAddress''
       ''0xToken0Address'' ''0xToken1Address'' ''1000000000000000000'' ''2000000000000000000''
       True (PStr ''1234'') (PStr ''abc'')
     = ([], Inl ValueError)
   \<and> rebalance_liquidity test_wallet 1000 2000 ''0xPoolAddress''
       ''0xToken0Address'' ''0xToken1Address'' ''1000000000000000000'' ''2000000000000000000''
       True (PStr ''1234'') (PStr ''0.0'')
     = ([], Inl ValueError)"
proof -
  have present: "py_truthy (PStr ''1234'')"
    by simp
  show ?thesis
    by (simp only: present_id_bad_liquidity_raises [OF present py_int_not_numbers(1)]
        present_id_bad_liquidity_raises [OF present py_int_not_numbers(2)]
        present_id_bad_liquidity_raises [OF present py_int_not_numbers(3)]
        present_id_bad_liquidity_raises [OF present py_int_not_numbers(4)] simp_thms)
qed

section \<open>The runs of the tests\<close>

text \<open>
  The calls of \<^verbatim>\<open>test_rebalance_liquidity.py\<close>, on a wallet to choose: ticks 1000 and
  2000, the pool \<^verbatim>\<open>0xPoolAddress\<close>, one and two tokens in wei.
\<close>

lemma all_from_snd: "all_from [] (\<lambda>log r. r = x) m \<Longrightarrow> snd (m []) = x"
  by (simp add: all_from_def)

lemma all_from_both:
  "all_from [] (\<lambda>log r. r = x \<and> f log = y) m \<Longrightarrow> snd (m []) = x \<and> f (fst (m [])) = y"
  by (simp add: all_from_def)

lemmas eval_simps =
  wallet_defs py_get_def dict_get_def position_invalid_def chatbot_position_invalid_def
  created_message_def rebalanced_message_def str_int_examples int_defs

lemma test_create_returns:
  "snd (rebalance_liquidity test_wallet 1000 2000 ''0xPoolAddress'' ''0xToken0Address''
          ''0xToken1Address'' ''1000000000000000000'' ''2000000000000000000'' False PNone PNone)
   = Inr ''Liquidity position created with token ID 5678 in pool 0xPoolAddress with tick range [1000, 2000].''"
  unfolding rebalance_liquidity_def
  by (rule all_from_snd) (intro all_from_rules; clarsimp simp: eval_simps)

lemma test_rebalance_returns:
  "snd (rebalance_liquidity test_wallet 1000 2000 ''0xPoolAddress'' ''0xToken0Address''
          ''0xToken1Address'' ''1000000000000000000'' ''2000000000000000000''
          True (PStr ''1234'') (PStr ''1000''))
   = Inr ''Liquidity position rebalanced. Old position (token ID 1234) removed. New liquidity position created with token ID 5678 in pool 0xPoolAddress with tick range [1000, 2000].''"
  unfolding rebalance_liquidity_def
  by (rule all_from_snd) (intro all_from_rules; clarsimp simp: eval_simps)

lemma test_burn_reverts:
  "snd (rebalance_liquidity burn_reverts_wallet 1000 2000 ''0xPoolAddress'' ''0xToken0Address''
          ''0xToken1Address'' ''1000000000000000000'' ''2000000000000000000''
          True (PStr ''1234'') (PStr ''1000''))
   = Inl (SdkError ''reverted'')
   \<and> invoked_methods (fst (rebalance_liquidity burn_reverts_wallet 1000 2000 ''0xPoolAddress''
          ''0xToken0Address'' ''0xToken1Address'' ''1000000000000000000'' ''2000000000000000000''
          True (PStr ''1234'') (PStr ''1000'')))
     = [''decreaseLiquidity'', ''collect'', ''burn'']"
  unfolding rebalance_liquidity_def
  by (rule all_from_both [where f = invoked_methods])
     (intro all_from_rules; clarsimp simp: eval_simps invoked_methods_def)

lemma test_chatbot_unapproved_returns:
  "snd (chatbot_rebalance_liquidity unapproved_wallet 1000 2000 ''0xPoolAddress''
          ''0xToken0Address'' ''0xToken1Address'' ''1000000000000000000'' ''2000000000000000000'')
   = Inr ''Liquidity position created with token ID 5678 in pool 0xPoolAddress with tick range [1000, 2000].''
   \<and> missing_approvals (fst (chatbot_rebalance_liquidity unapproved_wallet 1000 2000 ''0xPoolAddress''
          ''0xToken0Address'' ''0xToken1Address'' ''1000000000000000000'' ''2000000000000000000''))
     = 2"
  unfolding chatbot_unfold
  by (rule all_from_both [where f = missing_approvals])
     (intro all_from_rules; clarsimp simp: eval_simps)

lemma test_chatbot_rebalance_returns:
  "liquidity \<noteq> PStr ''0'' \<Longrightarrow>
   snd (chatbot_rebalance_liquidity (position_wallet liquidity) 1000 2000 ''0xPoolAddress''
          ''0xToken0Address'' ''0xToken1Address'' ''1000000000000000000'' ''2000000000000000000'')
   = Inr ''Liquidity position rebalanced. Old position (token ID 1234) removed. New liquidity position created with token ID 5678 in pool 0xPoolAddress with tick range [1000, 2000].''"
  unfolding chatbot_unfold
  by (rule all_from_snd) (intro all_from_rules; clarsimp simp: eval_simps)

section \<open>Exceptions\<close>

lemma core_failure_is_final:
  "failure_is_final
     (fst (rebalance_liquidity w tick_a tick_b pool token0 token1 amount0 amount1 ep tokenId liquidity))
     (snd (rebalance_liquidity w tick_a tick_b pool token0 token1 amount0 amount1 ep tokenId liquidity))"
  unfolding rebalance_liquidity_def
  by (rule all_fromD) (intro all_from_rules; simp)

lemma chatbot_failure_is_final:
  "failure_is_final
     (fst (chatbot_rebalance_liquidity w tick_a tick_b pool token0 token1 amount0 amount1))
     (snd (chatbot_rebalance_liquidity w tick_a tick_b pool token0 token1 amount0 amount1))"
  unfolding chatbot_unfold
  by (rule all_fromD) (intro all_from_rules; simp)

text \<open>
  C4. In every run of either implementation, on every wallet: a wallet call that
  raises (a contract invocation or its wait above all) is the last event of the log, so
  nothing is invoked after it, no retry and no compensation, and the exception it raised
  is the outcome of the run, unchanged. A failure after \<^verbatim>\<open>decreaseLiquidity\<close> or at
  \<^verbatim>\<open>burn\<close> therefore ends the run with no \<^verbatim>\<open>mint\<close> in the log.
\<close>

theorem exception_ends_run:
  "failure_is_final
     (fst (rebalance_liquidity w tick_a tick_b pool token0 token1 amount0Desired amount1Desired
            existing_position existing_tokenId existing_liquidity))
     (snd (rebalance_liquidity w tick_a tick_b pool token0 token1 amount0Desired amount1Desired
            existing_position existing_tokenId existing_liquidity))
   \<and> failure_is_final
     (fst (chatbot_rebalance_liquidity w tick_a tick_b pool token0 token1 amount0Desired amount1Desired))
     (snd (chatbot_rebalance_liquidity w tick_a tick_b pool token0 token1 amount0Desired amount1Desired))"
  by (rule conjI [OF core_failure_is_final chatbot_failure_is_final])

theorem exception_ends_run_witness:
  "failure_is_final
     (fst (rebalance_liquidity burn_reverts_wallet 1000 2000 ''0xPoolAddress'' ''0xToken0Address''
            ''0xToken1Address'' ''1000000000000000000'' ''2000000000000000000''
            True (PStr ''1234'') (PStr ''1000'')))
     (Inl (SdkError ''reverted''))
   \<and> invoked_methods (fst (rebalance_liquidity burn_reverts_wallet 1000 2000 ''0xPoolAddress''
          ''0xToken0Address'' ''0xToken1Address'' ''1000000000000000000'' ''2000000000000000000''
          True (PStr ''1234'') (PStr ''1000'')))
     = [''decreaseLiquidity'', ''collect'', ''burn'']"
  using exception_ends_run [of burn_reverts_wallet 1000 2000 "''0xPoolAddress''"
      "''0xToken0Address''" "''0xToken1Address''" "''1000000000000000000''"
      "''2000000000000000000''" True "PStr ''1234''" "PStr ''1000''"]
    test_burn_reverts
  by simp

section \<open>Waiting\<close>

lemma core_confirmed_in_order:
  "confirmed_in_order None
     (fst (rebalance_liquidity w tick_a tick_b pool token0 token1 amount0 amount1 ep tokenId liquidity))"
  unfolding rebalance_liquidity_def
  by (rule all_fromD [where C = "\<lambda>log r. confirmed_in_order None log"])
     (intro all_from_rules; simp)

lemma chatbot_confirmed_in_order:
  "confirmed_in_order None
     (fst (chatbot_rebalance_liquidity w tick_a tick_b pool token0 token1 amount0 amount1))"
  unfolding chatbot_unfold
  by (rule all_fromD [where C = "\<lambda>log r. confirmed_in_order None log"])
     (intro all_from_rules; simp)

text \<open>
  C8. In every run, the rebalance branch included, an invocation is issued only while
  no earlier one awaits its confirmation, and each wait is on the invocation issued just
  before it: the wait of \<^verbatim>\<open>decreaseLiquidity\<close> has returned before \<^verbatim>\<open>collect\<close> is
  invoked, that of \<^verbatim>\<open>collect\<close> before \<^verbatim>\<open>burn\<close>, that of \<^verbatim>\<open>burn\<close> before the final
  \<^verbatim>\<open>mint\<close>.
\<close>

theorem wait_before_next_invocation:
  "confirmed_in_order None
     (fst (rebalance_liquidity w tick_a tick_b pool token0 token1 amount0Desired amount1Desired
            existing_position existing_tokenId existing_liquidity))
   \<and> confirmed_in_order None
     (fst (chatbot_rebalance_liquidity w tick_a tick_b pool token0 token1 amount0Desired amount1Desired))"
  by (rule conjI [OF core_confirmed_in_order chatbot_confirmed_in_order])

theorem wait_before_next_invocation_witness:
  "confirmed_in_order None
     (fst (rebalance_liquidity test_wallet 1000 2000 ''0xPoolAddress'' ''0xToken0Address''
            ''0xToken1Address'' ''1000000000000000000'' ''2000000000000000000''
            True (PStr ''1234'') (PStr ''1000'')))
   \<and> snd (rebalance_liquidity test_wallet 1000 2000 ''0xPoolAddress'' ''0xToken0Address''
            ''0xToken1Address'' ''1000000000000000000'' ''2000000000000000000''
            True (PStr ''1234'') (PStr ''1000''))
     = Inr ''Liquidity position rebalanced. Old position (token ID 1234) removed. New liquidity position created with token ID 5678 in pool 0xPoolAddress with tick range [1000, 2000].''"
  using wait_before_next_invocation [of test_wallet 1000 2000 "''0xPoolAddress''"
      "''0xToken0Address''" "''0xToken1Address''" "''1000000000000000000''"
      "''2000000000000000000''" True "PStr ''1234''" "PStr ''1000''"]
    test_rebalance_returns
  by simp

section \<open>The arguments forwarded\<close>

lemma core_fee_and_deadline:
  "every_invocation fee_and_deadline_fixed
     (fst (rebalance_liquidity w tick_a tick_b pool token0 token1 amount0 amount1 ep tokenId liquidity))"
  unfolding rebalance_liquidity_def
  by (rule all_fromD [where C = "\<lambda>log r. every_invocation fee_and_deadline_fixed log"])
     (intro all_from_rules; simp add: every_invocation_def fee_and_deadline_fixed_def args_defs)

lemma chatbot_fee_and_deadline:
  "every_invocation fee_and_deadline_fixed
     (fst (chatbot_rebalance_liquidity w tick_a tick_b pool token0 token1 amount0 amount1))"
  unfolding chatbot_unfold
  by (rule all_fromD [where C = "\<lambda>log r. every_invocation fee_and_deadline_fixed log"])
     (intro all_from_rules; simp add: every_invocation_def fee_and_deadline_fixed_def args_defs)

text \<open>
  C5. For all inputs and every wallet, in every run of either implementation: the
  arguments of every \<^verbatim>\<open>mint\<close> invocation hold \<^verbatim>\<open>fee\<close> = 3000 and \<^verbatim>\<open>deadline\<close> =
  9999999999, and those of every \<^verbatim>\<open>decreaseLiquidity\<close> invocation hold \<^verbatim>\<open>deadline\<close> =
  9999999999, whatever the caller passed.
\<close>

theorem fee_and_deadline_forwarded:
  "every_invocation fee_and_deadline_fixed
     (fst (rebalance_liquidity w tick_a tick_b pool token0 token1 amount0Desired amount1Desired
            existing_position existing_tokenId existing_liquidity))
   \<and> every_invocation fee_and_deadline_fixed
     (fst (chatbot_rebalance_liquidity w tick_a tick_b pool token0 token1 amount0Desired amount1Desired))"
  by (rule conjI [OF core_fee_and_deadline chatbot_fee_and_deadline])

theorem fee_and_deadline_forwarded_witness:
  "every_invocation fee_and_deadline_fixed
     (fst (rebalance_liquidity test_wallet 1000 2000 ''0xPoolAddress'' ''0xToken0Address''
            ''0xToken1Address'' ''1000000000000000000'' ''2000000000000000000''
            True (PStr ''1234'') (PStr ''1000'')))
   \<and> fee_and_deadline_fixed ''mint''
       (mint_args test_wallet 1000 2000 ''0xPoolAddress'' ''0xToken0Address'' ''0xToken1Address''
          ''1000000000000000000'' ''2000000000000000000'')
   \<and> \<not> fee_and_deadline_fixed ''mint'' [(''fee'', PInt 500), (''deadline'', PInt 9999999999)]"
  using fee_and_deadline_forwarded [of test_wallet 1000 2000 "''0xPoolAddress''"
      "''0xToken0Address''" "''0xToken1Address''" "''1000000000000000000''"
      "''2000000000000000000''" True "PStr ''1234''" "PStr ''1000''"]
  by (simp add: fee_and_deadline_fixed_def args_defs)

lemma core_minimum_amounts:
  "every_invocation minimum_amounts_zero
     (fst (rebalance_liquidity w tick_a tick_b pool token0 token1 amount0 amount1 ep tokenId liquidity))"
  unfolding rebalance_liquidity_def
  by (rule all_fromD [where C = "\<lambda>log r. every_invocation minimum_amounts_zero log"])
     (intro all_from_rules; simp add: every_invocation_def minimum_amounts_zero_def args_defs)

lemma chatbot_minimum_amounts:
  "every_invocation minimum_amounts_zero
     (fst (chatbot_rebalance_liquidity w tick_a tick_b pool token0 token1 amount0 amount1))"
  unfolding chatbot_unfold
  by (rule all_fromD [where C = "\<lambda>log r. every_invocation minimum_amounts_zero log"])
     (intro all_from_rules; simp add: every_invocation_def minimum_amounts_zero_def args_defs)

text \<open>
  C6. For all inputs and every wallet, in every run of either implementation: the
  arguments of every \<^verbatim>\<open>mint\<close> and every \<^verbatim>\<open>decreaseLiquidity\<close> invocation hold
  \<^verbatim>\<open>amount0Min\<close> = \<^verbatim>\<open>"0"\<close> and \<^verbatim>\<open>amount1Min\<close> = \<^verbatim>\<open>"0"\<close>, whatever the desired amounts.
\<close>

theorem minimum_amounts_are_zero:
  "every_invocation minimum_amounts_zero
     (fst (rebalance_liquidity w tick_a tick_b pool token0 token1 amount0Desired amount1Desired
            existing_position existing_tokenId existing_liquidity))
   \<and> every_invocation minimum_amounts_zero
     (fst (chatbot_rebalance_liquidity w tick_a tick_b pool token0 token1 amount0Desired amount1Desired))"
  by (rule conjI [OF core_minimum_amounts chatbot_minimum_amounts])

theorem minimum_amounts_are_zero_witness:
  "every_invocation minimum_amounts_zero
     (fst (chatbot_rebalance_liquidity (position_wallet (PStr ''1000'')) 1000 2000 ''0xPoolAddress''
            ''0xToken0Address'' ''0xToken1Address'' ''1000000000000000000'' ''2000000000000000000''))
   \<and> minimum_amounts_zero ''decreaseLiquidity''
       (chatbot_decrease_args (PStr ''1234'') (PStr ''1000''))
   \<and> \<not> minimum_amounts_zero ''mint'' [(''amount0Min'', PStr ''1''), (''amount1Min'', PStr ''0'')]"
  using minimum_amounts_are_zero [of "position_wallet (PStr ''1000'')" 1000 2000 "''0xPoolAddress''"
      "''0xToken0Address''" "''0xToken1Address''" "''1000000000000000000''"
      "''2000000000000000000''" True "PStr ''1234''" "PStr ''1000''"]
  by (simp add: minimum_amounts_zero_def args_defs)

lemma core_collect_maxima:
  "every_invocation (collect_maxima amount0 amount1)
     (fst (rebalance_liquidity w tick_a tick_b pool token0 token1 amount0 amount1 ep tokenId liquidity))"
  unfolding rebalance_liquidity_def
  by (rule all_fromD [where C = "\<lambda>log r. every_invocation (collect_maxima amount0 amount1) log"])
     (intro all_from_rules; simp add: every_invocation_def collect_maxima_def args_defs)

lemma chatbot_collect_maxima:
  "every_invocation (collect_maxima amount0 amount1)
     (fst (chatbot_rebalance_liquidity w tick_a tick_b pool token0 token1 amount0 amount1))"
  unfolding chatbot_unfold
  by (rule all_fromD [where C = "\<lambda>log r. every_invocation (collect_maxima amount0 amount1) log"])
     (intro all_from_rules; simp add: every_invocation_def collect_maxima_def args_defs)

text \<open>
  C10. For all inputs and every wallet, in every run of either implementation: the
  arguments of every \<^verbatim>\<open>collect\<close> invocation hold \<^verbatim>\<open>amount0Max\<close> = the caller's
  \<^verbatim>\<open>amount0Desired\<close> and \<^verbatim>\<open>amount1Max\<close> = the caller's \<^verbatim>\<open>amount1Desired\<close>: the maxima
  passed to the contract are the amounts desired for the new position, not an unlimited
  maximum.
\<close>

theorem collect_maxima_are_desired_amounts:
  "every_invocation (collect_maxima amount0Desired amount1Desired)
     (fst (rebalance_liquidity w tick_a tick_b pool token0 token1 amount0Desired amount1Desired
            existing_position existing_tokenId existing_liquidity))
   \<and> every_invocation (collect_maxima amount0Desired amount1Desired)
     (fst (chatbot_rebalance_liquidity w tick_a tick_b pool token0 token1 amount0Desired amount1Desired))"
  by (rule conjI [OF core_collect_maxima chatbot_collect_maxima])

theorem collect_maxima_are_desired_amounts_witness:
  "every_invocation (collect_maxima ''1000000000000000000'' ''2000000000000000000'')
     (fst (rebalance_liquidity test_wallet 1000 2000 ''0xPoolAddress'' ''0xToken0Address''
            ''0xToken1Address'' ''1000000000000000000'' ''2000000000000000000''
            True (PStr ''1234'') (PStr ''1000'')))
   \<and> collect_maxima ''1000000000000000000'' ''2000000000000000000'' ''collect''
       (collect_args test_wallet (PStr ''1234'') ''1000000000000000000'' ''2000000000000000000'')
   \<and> \<not> collect_maxima ''1000000000000000000'' ''2000000000000000000'' ''collect''
       [(''amount0Max'', PStr ''340282366920938463463374607431768211455''),
        (''amount1Max'', PStr ''340282366920938463463374607431768211455'')]"
  using collect_maxima_are_desired_amounts [of "''1000000000000000000''" "''2000000000000000000''"
      test_wallet 1000 2000 "''0xPoolAddress''" "''0xToken0Address''" "''0xToken1Address''"
      True "PStr ''1234''" "PStr ''1000''"]
  by (simp add: collect_maxima_def args_defs)

section \<open>The rebalance of an existing position\<close>

lemmas result_defs = minted_tokenId_def final_mint_result_def

lemma rebalanced_message_text:
  "rebalanced_message tokenId new_tokenId pool tick_a tick_b =
     ''Liquidity position rebalanced. Old position (token ID '' @ py_str tokenId
     @ '') removed. New liquidity position created with token ID '' @ py_str new_tokenId
     @ '' in pool '' @ pool @ '' with tick range ['' @ str_int tick_a @ '', '' @ str_int tick_b @ ''].''"
  by (simp add: rebalanced_message_def)

lemma created_message_text:
  "created_message tokenId pool tick_a tick_b =
     ''Liquidity position created with token ID '' @ py_str tokenId
     @ '' in pool '' @ pool @ '' with tick range ['' @ str_int tick_a @ '', '' @ str_int tick_b @ ''].''"
  by (simp add: created_message_def)

lemma core_rebalance_run:
  assumes "py_truthy tokenId" "py_int liquidity = Inr n" "n \<noteq> 0"
  shows "\<forall>s. snd (rebalance_liquidity w tick_a tick_b pool token0 token1 amount0 amount1
                  True tokenId liquidity) = Inr s \<longrightarrow>
           invocations (fst (rebalance_liquidity w tick_a tick_b pool token0 token1 amount0 amount1
                  True tokenId liquidity)) =
             [(NM_POSITION_MANAGER, ''decreaseLiquidity'', decrease_args tokenId liquidity pool),
              (NM_POSITION_MANAGER, ''collect'', collect_args w tokenId amount0 amount1),
              (NM_POSITION_MANAGER, ''burn'', burn_args tokenId pool),
              (NM_POSITION_MANAGER, ''mint'',
                 mint_args w tick_a tick_b pool token0 token1 amount0 amount1)]
           \<and> map_option (\<lambda>new. rebalanced_message tokenId new pool tick_a tick_b)
               (minted_tokenId (fst (rebalance_liquidity w tick_a tick_b pool token0 token1
                  amount0 amount1 True tokenId liquidity))) = Some s"
  unfolding rebalance_liquidity_def
  by (rule all_fromD [where C = "\<lambda>log r. \<forall>s. r = Inr s \<longrightarrow>
           invocations log =
             [(NM_POSITION_MANAGER, ''decreaseLiquidity'', decrease_args tokenId liquidity pool),
              (NM_POSITION_MANAGER, ''collect'', collect_args w tokenId amount0 amount1),
              (NM_POSITION_MANAGER, ''burn'', burn_args tokenId pool),
              (NM_POSITION_MANAGER, ''mint'',
                 mint_args w tick_a tick_b pool token0 token1 amount0 amount1)]
           \<and> map_option (\<lambda>new. rebalanced_message tokenId new pool tick_a tick_b)
               (minted_tokenId log) = Some s"])
     (intro all_from_rules; clarsimp simp: assms position_invalid_def result_defs)

lemma chatbot_rebalance_run:
  assumes "get_liquidity_position w [] pool = Inr (Dict d)"
    and "py_truthy (dict_get d ''tokenId'' PNone)"
    and "dict_get d ''liquidity'' PNone \<noteq> PStr ''0''"
  shows "\<forall>s. snd (chatbot_rebalance_liquidity w tick_a tick_b pool token0 token1 amount0 amount1)
               = Inr s \<longrightarrow>
           invocations (fst (chatbot_rebalance_liquidity w tick_a tick_b pool token0 token1
                  amount0 amount1)) =
             [(chatbot_NM_POSITION_MANAGER, ''decreaseLiquidity'',
                 chatbot_decrease_args (dict_get d ''tokenId'' PNone) (dict_get d ''liquidity'' PNone)),
              (chatbot_NM_POSITION_MANAGER, ''collect'',
                 collect_args w (dict_get d ''tokenId'' PNone) amount0 amount1),
              (chatbot_NM_POSITION_MANAGER, ''burn'', [(''tokenId'', dict_get d ''tokenId'' PNone)]),
              (chatbot_NM_POSITION_MANAGER, ''mint'',
                 chatbot_mint_args w tick_a tick_b token0 token1 amount0 amount1)]
           \<and> map_option (\<lambda>new. rebalanced_message (dict_get d ''tokenId'' PNone) new pool tick_a tick_b)
               (minted_tokenId (fst (chatbot_rebalance_liquidity w tick_a tick_b pool token0 token1
                  amount0 amount1))) = Some s"
proof -
  have nonempty: "d \<noteq> []"
    using assms(2) by (auto simp: dict_get_def)
  show ?thesis
    unfolding chatbot_unfold
    by (rule all_fromD [where C = "\<lambda>log r. \<forall>s. r = Inr s \<longrightarrow>
           invocations log =
             [(chatbot_NM_POSITION_MANAGER, ''decreaseLiquidity'',
                 chatbot_decrease_args (dict_get d ''tokenId'' PNone) (dict_get d ''liquidity'' PNone)),
              (chatbot_NM_POSITION_MANAGER, ''collect'',
                 collect_args w (dict_get d ''tokenId'' PNone) amount0 amount1),
              (chatbot_NM_POSITION_MANAGER, ''burn'', [(''tokenId'', dict_get d ''tokenId'' PNone)]),
              (chatbot_NM_POSITION_MANAGER, ''mint'',
                 chatbot_mint_args w tick_a tick_b token0 token1 amount0 amount1)]
           \<and> map_option (\<lambda>new. rebalanced_message (dict_get d ''tokenId'' PNone) new pool tick_a tick_b)
               (minted_tokenId log) = Some s"])
       (intro all_from_rules;
        clarsimp simp: assms nonempty py_get_def chatbot_position_invalid_def result_defs)
qed

text \<open>
  C3. For every rebalance of an existing position that passes validation and returns,
  in either implementation: the contract invocations of the run are exactly
  \<^verbatim>\<open>decreaseLiquidity\<close>, \<^verbatim>\<open>collect\<close>, \<^verbatim>\<open>burn\<close>, \<^verbatim>\<open>mint\<close>, in this order, on the position
  manager; the \<^verbatim>\<open>mint\<close> carries the new tick range; and the string returned names the
  old token id and the token id of the result of the final \<^verbatim>\<open>mint\<close>. Validation is: in
  the core package, a truthy token id and a liquidity that \<^verbatim>\<open>int()\<close> reads as a number
  other than zero; in the chatbot, a position dictionary from the wallet with a truthy
  token id and a liquidity other than the string \<^verbatim>\<open>"0"\<close>.
\<close>

theorem rebalance_invocation_order:
  "(py_truthy existing_tokenId \<and> py_int existing_liquidity = Inr n \<and> n \<noteq> 0
     \<and> snd (rebalance_liquidity w tick_a tick_b pool token0 token1 amount0Desired amount1Desired
              True existing_tokenId existing_liquidity) = Inr s
    \<longrightarrow> invocations (fst (rebalance_liquidity w tick_a tick_b pool token0 token1 amount0Desired
                          amount1Desired True existing_tokenId existing_liquidity)) =
          [(NM_POSITION_MANAGER, ''decreaseLiquidity'',
              decrease_args existing_tokenId existing_liquidity pool),
           (NM_POSITION_MANAGER, ''collect'',
              collect_args w existing_tokenId amount0Desired amount1Desired),
           (NM_POSITION_MANAGER, ''burn'', burn_args existing_tokenId pool),
           (NM_POSITION_MANAGER, ''mint'',
              mint_args w tick_a tick_b pool token0 token1 amount0Desired amount1Desired)]
        \<and> map_of (mint_args w tick_a tick_b pool token0 token1 amount0Desired amount1Desired)
              ''tickLower'' = Some (PInt tick_a)
        \<and> map_of (mint_args w tick_a tick_b pool token0 token1 amount0Desired amount1Desired)
              ''tickUpper'' = Some (PInt tick_b)
        \<and> (\<exists>new. minted_tokenId (fst (rebalance_liquidity w tick_a tick_b pool token0 token1
                      amount0Desired amount1Desired True existing_tokenId existing_liquidity))
                    = Some new
              \<and> s = ''Liquidity position rebalanced. Old position (token ID ''
                    @ py_str existing_tokenId
                    @ '') removed. New liquidity position created with token ID '' @ py_str new
                    @ '' in pool '' @ pool @ '' with tick range ['' @ str_int tick_a @ '', ''
                    @ str_int tick_b @ ''].''))
   \<and> (get_liquidity_position w [] pool = Inr (Dict d)
       \<and> py_truthy (dict_get d ''tokenId'' PNone)
       \<and> dict_get d ''liquidity'' PNone \<noteq> PStr ''0''
       \<and> snd (chatbot_rebalance_liquidity w tick_a tick_b pool token0 token1 amount0Desired
                amount1Desired) = Inr s'
    \<longrightarrow> invocations (fst (chatbot_rebalance_liquidity w tick_a tick_b pool token0 token1
                          amount0Desired amount1Desired)) =
          [(chatbot_NM_POSITION_MANAGER, ''decreaseLiquidity'',
              chatbot_decrease_args (dict_get d ''tokenId'' PNone) (dict_get d ''liquidity'' PNone)),
           (chatbot_NM_POSITION_MANAGER, ''collect'',
              collect_args w (dict_get d ''tokenId'' PNone) amount0Desired amount1Desired),
           (chatbot_NM_POSITION_MANAGER, ''burn'', [(''tokenId'', dict_get d ''tokenId'' PNone)]),
           (chatbot_NM_POSITION_MANAGER, ''mint'',
              chatbot_mint_args w tick_a tick_b token0 token1 amount0Desired amount1Desired)]
        \<and> map_of (chatbot_mint_args w tick_a tick_b token0 token1 amount0Desired amount1Desired)
              ''tickLower'' = Some (PInt tick_a)
        \<and> map_of (chatbot_mint_args w tick_a tick_b token0 token1 amount0Desired amount1Desired)
              ''tickUpper'' = Some (PInt tick_b)
        \<and> (\<exists>new. minted_tokenId (fst (chatbot_rebalance_liquidity w tick_a tick_b pool token0
                      token1 amount0Desired amount1Desired)) = Some new
              \<and> s' = ''Liquidity position rebalanced. Old position (token ID ''
                    @ py_str (dict_get d ''tokenId'' PNone)
                    @ '') removed. New liquidity position created with token ID '' @ py_str new
                    @ '' in pool '' @ pool @ '' with tick range ['' @ str_int tick_a @ '', ''
                    @ str_int tick_b @ ''].''))"
proof (intro conjI impI)
  assume h: "py_truthy existing_tokenId \<and> py_int existing_liquidity = Inr n \<and> n \<noteq> 0
     \<and> snd (rebalance_liquidity w tick_a tick_b pool token0 token1 amount0Desired amount1Desired
              True existing_tokenId existing_liquidity) = Inr s"
  note run = core_rebalance_run [of existing_tokenId existing_liquidity n w tick_a tick_b pool
      token0 token1 amount0Desired amount1Desired, rule_format, of s]
  from h run
  show "invocations (fst (rebalance_liquidity w tick_a tick_b pool token0 token1 amount0Desired
                          amount1Desired True existing_tokenId existing_liquidity)) =
          [(NM_POSITION_MANAGER, ''decreaseLiquidity'',
              decrease_args existing_tokenId existing_liquidity pool),
           (NM_POSITION_MANAGER, ''collect'',
              collect_args w existing_tokenId amount0Desired amount1Desired),
           (NM_POSITION_MANAGER, ''burn'', burn_args existing_tokenId pool),
           (NM_POSITION_MANAGER, ''mint'',
              mint_args w tick_a tick_b pool token0 token1 amount0Desired amount1Desired)]"
    by blast
  from h run
  show "\<exists>new. minted_tokenId (fst (rebalance_liquidity w tick_a tick_b pool token0 token1
                      amount0Desired amount1Desired True existing_tokenId existing_liquidity))
                    = Some new
              \<and> s = ''Liquidity position rebalanced. Old position (token ID ''
                    @ py_str existing_tokenId
                    @ '') removed. New liquidity position created with token ID '' @ py_str new
                    @ '' in pool '' @ pool @ '' with tick range ['' @ str_int tick_a @ '', ''
                    @ str_int tick_b @ ''].''"
    unfolding rebalanced_message_text [symmetric] by auto
next
  assume h: "get_liquidity_position w [] pool = Inr (Dict d)
       \<and> py_truthy (dict_get d ''tokenId'' PNone)
       \<and> dict_get d ''liquidity'' PNone \<noteq> PStr ''0''
       \<and> snd (chatbot_rebalance_liquidity w tick_a tick_b pool token0 token1 amount0Desired
                amount1Desired) = Inr s'"
  note run = chatbot_rebalance_run [of w pool d tick_a tick_b token0 token1 amount0Desired
      amount1Desired, rule_format, of s']
  from h run
  show "invocations (fst (chatbot_rebalance_liquidity w tick_a tick_b pool token0 token1
                          amount0Desired amount1Desired)) =
          [(chatbot_NM_POSITION_MANAGER, ''decreaseLiquidity'',
              chatbot_decrease_args (dict_get d ''tokenId'' PNone) (dict_get d ''liquidity'' PNone)),
           (chatbot_NM_POSITION_MANAGER, ''collect'',
              collect_args w (dict_get d ''tokenId'' PNone) amount0Desired amount1Desired),
           (chatbot_NM_POSITION_MANAGER, ''burn'', [(''tokenId'', dict_get d ''tokenId'' PNone)]),
           (chatbot_NM_POSITION_MANAGER, ''mint'',
              chatbot_mint_args w tick_a tick_b token0 token1 amount0Desired amount1Desired)]"
    by blast
  from h run
  show "\<exists>new. minted_tokenId (fst (chatbot_rebalance_liquidity w tick_a tick_b pool token0
                      token1 amount0Desired amount1Desired)) = Some new
              \<and> s' = ''Liquidity position rebalanced. Old position (token ID ''
                    @ py_str (dict_get d ''tokenId'' PNone)
                    @ '') removed. New liquidity position created with token ID '' @ py_str new
                    @ '' in pool '' @ pool @ '' with tick range ['' @ str_int tick_a @ '', ''
                    @ str_int tick_b @ ''].''"
    unfolding rebalanced_message_text [symmetric] by auto
qed (simp_all add: mint_args_def chatbot_mint_args_def)

theorem rebalance_invocation_order_witness:
  "py_truthy (PStr ''1234'') \<and> py_int (PStr ''1000'') = Inr 1000 \<and> (1000 :: int) \<noteq> 0
   \<and> snd (rebalance_liquidity test_wallet 1000 2000 ''0xPoolAddress'' ''0xToken0Address''
            ''0xToken1Address'' ''1000000000000000000'' ''2000000000000000000''
            True (PStr ''1234'') (PStr ''1000''))
     = Inr ''Liquidity position rebalanced. Old position (token ID 1234) removed. New liquidity position created with token ID 5678 in pool 0xPoolAddress with tick range [1000, 2000].''
   \<and> invoked_methods (fst (rebalance_liquidity test_wallet 1000 2000 ''0xPoolAddress''
          ''0xToken0Address'' ''0xToken1Address'' ''1000000000000000000'' ''2000000000000000000''
          True (PStr ''1234'') (PStr ''1000'')))
     = [''decreaseLiquidity'', ''collect'', ''burn'', ''mint'']
   \<and> invoked_methods (fst (chatbot_rebalance_liquidity (position_wallet (PStr ''1000'')) 1000 2000
          ''0xPoolAddress'' ''0xToken0Address'' ''0xToken1Address'' ''1000000000000000000''
          ''2000000000000000000''))
     = [''decreaseLiquidity'', ''collect'', ''burn'', ''mint'']"
proof -
  have core: "py_truthy (PStr ''1234'') \<and> py_int (PStr ''1000'') = Inr 1000 \<and> (1000 :: int) \<noteq> 0
     \<and> snd (rebalance_liquidity test_wallet 1000 2000 ''0xPoolAddress'' ''0xToken0Address''
            ''0xToken1Address'' ''1000000000000000000'' ''2000000000000000000''
            True (PStr ''1234'') (PStr ''1000''))
       = Inr ''Liquidity position rebalanced. Old position (token ID 1234) removed. New liquidity position created with token ID 5678 in pool 0xPoolAddress with tick range [1000, 2000].''"
    by (simp add: test_rebalance_returns py_int_examples del: py_int.simps)
  have chat: "get_liquidity_position (position_wallet (PStr ''1000'')) [] ''0xPoolAddress''
       = Inr (Dict [(''tokenId'', PStr ''1234''), (''liquidity'', PStr ''1000'')])
     \<and> py_truthy (dict_get [(''tokenId'', PStr ''1234''), (''liquidity'', PStr ''1000'')] ''tokenId'' PNone)
     \<and> dict_get [(''tokenId'', PStr ''1234''), (''liquidity'', PStr ''1000'')] ''liquidity'' PNone
         \<noteq> PStr ''0''
     \<and> snd (chatbot_rebalance_liquidity (position_wallet (PStr ''1000'')) 1000 2000
          ''0xPoolAddress'' ''0xToken0Address'' ''0xToken1Address'' ''1000000000000000000''
          ''2000000000000000000'')
       = Inr ''Liquidity position rebalanced. Old position (token ID 1234) removed. New liquidity position created with token ID 5678 in pool 0xPoolAddress with tick range [1000, 2000].''"
    using test_chatbot_rebalance_returns [of "PStr ''1000''"]
    by (simp add: wallet_defs dict_get_def)
  note core_inst = rebalance_invocation_order [of "PStr ''1234''" "PStr ''1000''" 1000 test_wallet
      1000 2000 "''0xPoolAddress''" "''0xToken0Address''" "''0xToken1Address''"
      "''1000000000000000000''" "''2000000000000000000''"]
  note chat_inst = rebalance_invocation_order [of _ _ _ "position_wallet (PStr ''1000'')"
      1000 2000 "''0xPoolAddress''" "''0xToken0Address''" "''0xToken1Address''"
      "''1000000000000000000''" "''2000000000000000000''" _
      "[(''tokenId'', PStr ''1234''), (''liquidity'', PStr ''1000'')]"]
  have a: "invoked_methods (fst (rebalance_liquidity test_wallet 1000 2000 ''0xPoolAddress''
          ''0xToken0Address'' ''0xToken1Address'' ''1000000000000000000'' ''2000000000000000000''
          True (PStr ''1234'') (PStr ''1000'')))
     = [''decreaseLiquidity'', ''collect'', ''burn'', ''mint'']"
    using core_inst [THEN conjunct1, rule_format, OF core] by (simp add: invoked_methods_def)
  have b: "invoked_methods (fst (chatbot_rebalance_liquidity (position_wallet (PStr ''1000'')) 1000 2000
          ''0xPoolAddress'' ''0xToken0Address'' ''0xToken1Address'' ''1000000000000000000''
          ''2000000000000000000''))
     = [''decreaseLiquidity'', ''collect'', ''burn'', ''mint'']"
    using chat_inst [THEN conjunct2, rule_format, OF chat] by (simp add: invoked_methods_def)
  from core a b show ?thesis by blast
qed

section \<open>The token id in the status string\<close>

lemma core_reports_minted_tokenId:
  "\<forall>s. snd (rebalance_liquidity w tick_a tick_b pool token0 token1 amount0 amount1
                ep tokenId liquidity) = Inr s \<longrightarrow> s \<noteq> invalid_position_message \<longrightarrow>
     map_option (\<lambda>new. if ep then rebalanced_message tokenId new pool tick_a tick_b
                       else created_message new pool tick_a tick_b)
       (minted_tokenId (fst (rebalance_liquidity w tick_a tick_b pool token0 token1 amount0 amount1
                ep tokenId liquidity))) = Some s"
  unfolding rebalance_liquidity_def
  by (rule all_fromD [where C = "\<lambda>log r. \<forall>s. r = Inr s \<longrightarrow> s \<noteq> invalid_position_message \<longrightarrow>
     map_option (\<lambda>new. if ep then rebalanced_message tokenId new pool tick_a tick_b
                       else created_message new pool tick_a tick_b)
       (minted_tokenId log) = Some s"])
     (intro all_from_rules; clarsimp simp: result_defs)

lemma minted_tokenId_of_result:
  "final_mint_result log = Some (Dict d) \<Longrightarrow>
     minted_tokenId log = Some (case map_of d ''tokenId'' of None \<Rightarrow> PStr ''unknown'' | Some v \<Rightarrow> v)"
  by (simp add: minted_tokenId_def py_get_def dict_get_def)

text \<open>
  C7. For every execution of the core action that returns a status string other than
  the validation message: the log ends with the wait on the final \<^verbatim>\<open>mint\<close>, its result
  is a dictionary, and the string returned is the status text with, in the place of the
  new token id, \<^verbatim>\<open>str()\<close> of the value under \<^verbatim>\<open>tokenId\<close> in that dictionary, or
  \<^verbatim>\<open>unknown\<close> when the dictionary has no such key, and with the caller's pool and ticks.
\<close>

theorem minted_tokenId_reported:
  "snd (rebalance_liquidity w tick_a tick_b pool token0 token1 amount0Desired amount1Desired
          existing_position existing_tokenId existing_liquidity) = Inr s
   \<and> s \<noteq> invalid_position_message
   \<longrightarrow> (\<exists>d. final_mint_result (fst (rebalance_liquidity w tick_a tick_b pool token0 token1
                amount0Desired amount1Desired existing_position existing_tokenId existing_liquidity))
              = Some (Dict d)
           \<and> s = (if existing_position then
                    ''Liquidity position rebalanced. Old position (token ID ''
                    @ py_str existing_tokenId
                    @ '') removed. New liquidity position created with token ID ''
                    @ py_str (case map_of d ''tokenId'' of None \<Rightarrow> PStr ''unknown'' | Some v \<Rightarrow> v)
                    @ '' in pool '' @ pool @ '' with tick range ['' @ str_int tick_a @ '', ''
                    @ str_int tick_b @ ''].''
                  else
                    ''Liquidity position created with token ID ''
                    @ py_str (case map_of d ''tokenId'' of None \<Rightarrow> PStr ''unknown'' | Some v \<Rightarrow> v)
                    @ '' in pool '' @ pool @ '' with tick range ['' @ str_int tick_a @ '', ''
                    @ str_int tick_b @ ''].''))"
proof (intro impI)
  let ?log = "fst (rebalance_liquidity w tick_a tick_b pool token0 token1 amount0Desired
                amount1Desired existing_position existing_tokenId existing_liquidity)"
  assume h: "snd (rebalance_liquidity w tick_a tick_b pool token0 token1 amount0Desired
          amount1Desired existing_position existing_tokenId existing_liquidity) = Inr s
   \<and> s \<noteq> invalid_position_message"
  with core_reports_minted_tokenId [of w tick_a tick_b pool token0 token1 amount0Desired
      amount1Desired existing_position existing_tokenId existing_liquidity]
  obtain new where new: "minted_tokenId ?log = Some new"
    and s: "s = (if existing_position then rebalanced_message existing_tokenId new pool tick_a tick_b
                 else created_message new pool tick_a tick_b)"
    by auto
  from new obtain d where d: "final_mint_result ?log = Some (Dict d)"
    by (auto simp: minted_tokenId_def py_get_def split: option.splits pyobj.splits)
  from minted_tokenId_of_result [OF d] new
  have "new = (case map_of d ''tokenId'' of None \<Rightarrow> PStr ''unknown'' | Some v \<Rightarrow> v)"
    by simp
  with s d show "\<exists>d. final_mint_result ?log = Some (Dict d)
           \<and> s = (if existing_position then
                    ''Liquidity position rebalanced. Old position (token ID ''
                    @ py_str existing_tokenId
                    @ '') removed. New liquidity position created with token ID ''
                    @ py_str (case map_of d ''tokenId'' of None \<Rightarrow> PStr ''unknown'' | Some v \<Rightarrow> v)
                    @ '' in pool '' @ pool @ '' with tick range ['' @ str_int tick_a @ '', ''
                    @ str_int tick_b @ ''].''
                  else
                    ''Liquidity position created with token ID ''
                    @ py_str (case map_of d ''tokenId'' of None \<Rightarrow> PStr ''unknown'' | Some v \<Rightarrow> v)
                    @ '' in pool '' @ pool @ '' with tick range ['' @ str_int tick_a @ '', ''
                    @ str_int tick_b @ ''].'')"
    unfolding rebalanced_message_text [symmetric] created_message_text [symmetric]
    by blast
qed

theorem minted_tokenId_reported_witness:
  "snd (rebalance_liquidity test_wallet 1000 2000 ''0xPoolAddress'' ''0xToken0Address''
          ''0xToken1Address'' ''1000000000000000000'' ''2000000000000000000'' False PNone PNone)
     = Inr ''Liquidity position created with token ID 5678 in pool 0xPoolAddress with tick range [1000, 2000].''
   \<and> ''Liquidity position created with token ID 5678 in pool 0xPoolAddress with tick range [1000, 2000].''
       \<noteq> invalid_position_message
   \<and> final_mint_result (fst (rebalance_liquidity test_wallet 1000 2000 ''0xPoolAddress''
          ''0xToken0Address'' ''0xToken1Address'' ''1000000000000000000'' ''2000000000000000000''
          False PNone PNone)) \<noteq> None"
proof -
  have h: "snd (rebalance_liquidity test_wallet 1000 2000 ''0xPoolAddress'' ''0xToken0Address''
          ''0xToken1Address'' ''1000000000000000000'' ''2000000000000000000'' False PNone PNone)
     = Inr ''Liquidity position created with token ID 5678 in pool 0xPoolAddress with tick range [1000, 2000].''
   \<and> ''Liquidity position created with token ID 5678 in pool 0xPoolAddress with tick range [1000, 2000].''
       \<noteq> invalid_position_message"
    using test_create_returns by (simp add: invalid_position_message_def)
  from minted_tokenId_reported [rule_format, OF h] h show ?thesis
    by auto
qed

section \<open>The chatbot's guard on the liquidity\<close>

lemma chatbot_first_invocation:
  assumes "get_liquidity_position w [] pool = Inr (Dict d)"
    and "py_truthy (dict_get d ''tokenId'' PNone)"
    and "dict_get d ''liquidity'' PNone \<noteq> PStr ''0''"
  shows "invocations (fst (chatbot_rebalance_liquidity w tick_a tick_b pool token0 token1
            amount0 amount1)) \<noteq> []
      \<and> hd (invocations (fst (chatbot_rebalance_liquidity w tick_a tick_b pool token0 token1
            amount0 amount1))) =
          (chatbot_NM_POSITION_MANAGER, ''decreaseLiquidity'',
             chatbot_decrease_args (dict_get d ''tokenId'' PNone) (dict_get d ''liquidity'' PNone))
      \<and> snd (chatbot_rebalance_liquidity w tick_a tick_b pool token0 token1 amount0 amount1)
          \<noteq> Inr invalid_position_message"
proof -
  have nonempty: "d \<noteq> []"
    using assms(2) by (auto simp: dict_get_def)
  show ?thesis
    unfolding chatbot_unfold
    by (rule all_fromD [where C = "\<lambda>log r. invocations log \<noteq> []
          \<and> hd (invocations log) =
              (chatbot_NM_POSITION_MANAGER, ''decreaseLiquidity'',
                 chatbot_decrease_args (dict_get d ''tokenId'' PNone) (dict_get d ''liquidity'' PNone))
          \<and> r \<noteq> Inr invalid_position_message"])
       (intro all_from_rules;
        clarsimp simp: assms nonempty py_get_def chatbot_position_invalid_def
          rebalanced_message_def invalid_position_message_def)
qed

text \<open>
  C9. In the chatbot, the guard compares the liquidity with the string \<^verbatim>\<open>"0"\<close>. When the
  wallet reports a position dictionary whose token id is truthy and whose liquidity is
  anything but that string (the integer 0 and the string \<^verbatim>\<open>"00"\<close> among them), every
  run passes validation: its first contract invocation is \<^verbatim>\<open>decreaseLiquidity\<close> on the
  position manager, carrying that liquidity, and the run does not return the early
  validation message.
\<close>

theorem chatbot_zero_liquidity_passes:
  assumes "get_liquidity_position w [] pool = Inr (Dict d)"
    and "py_truthy (dict_get d ''tokenId'' PNone)"
    and "dict_get d ''liquidity'' PNone \<noteq> PStr ''0''"
  shows "invocations (fst (chatbot_rebalance_liquidity w tick_a tick_b pool token0 token1
            amount0Desired amount1Desired)) \<noteq> []
      \<and> hd (invocations (fst (chatbot_rebalance_liquidity w tick_a tick_b pool token0 token1
            amount0Desired amount1Desired))) =
          (chatbot_NM_POSITION_MANAGER, ''decreaseLiquidity'',
             [(''tokenId'', dict_get d ''tokenId'' PNone),
              (''liquidity'', dict_get d ''liquidity'' PNone),
              (''amount0Min'', PStr ''0''),
              (''amount1Min'', PStr ''0''),
              (''deadline'', PInt 9999999999)])
      \<and> snd (chatbot_rebalance_liquidity w tick_a tick_b pool token0 token1
            amount0Desired amount1Desired) \<noteq> Inr invalid_position_message"
  using chatbot_first_invocation [OF assms, of tick_a tick_b token0 token1 amount0Desired
      amount1Desired]
  by (simp add: chatbot_decrease_args_def deadline_def)

theorem chatbot_zero_liquidity_passes_witness:
  "py_int (PInt 0) = Inr 0 \<and> py_int (PStr ''00'') = Inr 0
   \<and> hd (invocations (fst (chatbot_rebalance_liquidity (position_wallet (PInt 0)) 1000 2000
            ''0xPoolAddress'' ''0xToken0Address'' ''0xToken1Address'' ''1000000000000000000''
            ''2000000000000000000''))) =
       (''0x27F971cb582BF9E50F397e4d29a5C7A34f11faA2'', ''decreaseLiquidity'',
          [(''tokenId'', PStr ''1234''), (''liquidity'', PInt 0), (''amount0Min'', PStr ''0''),
           (''amount1Min'', PStr ''0''), (''deadline'', PInt 9999999999)])
   \<and> hd (invocations (fst (chatbot_rebalance_liquidity (position_wallet (PStr ''00'')) 1000 2000
            ''0xPoolAddress'' ''0xToken0Address'' ''0xToken1Address'' ''1000000000000000000''
            ''2000000000000000000''))) =
       (''0x27F971cb582BF9E50F397e4d29a5C7A34f11faA2'', ''decreaseLiquidity'',
          [(''tokenId'', PStr ''1234''), (''liquidity'', PStr ''00''), (''amount0Min'', PStr ''0''),
           (''amount1Min'', PStr ''0''), (''deadline'', PInt 9999999999)])
   \<and> snd (chatbot_rebalance_liquidity (position_wallet (PInt 0)) 1000 2000
            ''0xPoolAddress'' ''0xToken0Address'' ''0xToken1Address'' ''1000000000000000000''
            ''2000000000000000000'')
       = Inr ''Liquidity position rebalanced. Old position (token ID 1234) removed. New liquidity position created with token ID 5678 in pool 0xPoolAddress with tick range [1000, 2000].''"
proof -
  have zero: "get_liquidity_position (position_wallet (PInt 0)) [] ''0xPoolAddress''
       = Inr (Dict [(''tokenId'', PStr ''1234''), (''liquidity'', PInt 0)])"
    by (simp add: wallet_defs)
  have zeros: "get_liquidity_position (position_wallet (PStr ''00'')) [] ''0xPoolAddress''
       = Inr (Dict [(''tokenId'', PStr ''1234''), (''liquidity'', PStr ''00'')])"
    by (simp add: wallet_defs)
  have a: "py_truthy (dict_get [(''tokenId'', PStr ''1234''), (''liquidity'', PInt 0)] ''tokenId'' PNone)"
    and b: "dict_get [(''tokenId'', PStr ''1234''), (''liquidity'', PInt 0)] ''liquidity'' PNone
         \<noteq> PStr ''0''"
    and c: "py_truthy (dict_get [(''tokenId'', PStr ''1234''), (''liquidity'', PStr ''00'')] ''tokenId'' PNone)"
    and d: "dict_get [(''tokenId'', PStr ''1234''), (''liquidity'', PStr ''00'')] ''liquidity'' PNone
         \<noteq> PStr ''0''"
    by (simp_all add: dict_get_def)
  show ?thesis
    using chatbot_zero_liquidity_passes [OF zero a b, of 1000 2000 "''0xToken0Address''"
        "''0xToken1Address''" "''1000000000000000000''" "''2000000000000000000''"]
      chatbot_zero_liquidity_passes [OF zeros c d, of 1000 2000 "''0xToken0Address''"
        "''0xToken1Address''" "''1000000000000000000''" "''2000000000000000000''"]
      test_chatbot_rebalance_returns [of "PInt 0"]
    by (simp add: dict_get_def chatbot_NM_POSITION_MANAGER_def py_int_examples del: py_int.simps(4))
qed

section \<open>The number of invocations\<close>

lemma core_create_methods:
  "invoked_methods (fst (rebalance_liquidity w tick_a tick_b pool token0 token1 amount0 amount1
      False tokenId liquidity)) = [''mint'']"
  unfolding rebalance_liquidity_def
  by (rule all_fromD [where C = "\<lambda>log r. invoked_methods log = [''mint'']"])
     (intro all_from_rules; simp add: invoked_methods_def)

lemma core_rebalance_prefix:
  assumes "py_truthy tokenId" "py_int liquidity = Inr n" "n \<noteq> 0"
  shows "invoked_methods (fst (rebalance_liquidity w tick_a tick_b pool token0 token1 amount0
            amount1 True tokenId liquidity)) =
         take (length (invoked_methods (fst (rebalance_liquidity w tick_a tick_b pool token0 token1
            amount0 amount1 True tokenId liquidity))))
           [''decreaseLiquidity'', ''collect'', ''burn'', ''mint'']"
  unfolding rebalance_liquidity_def
  by (rule all_fromD [where C = "\<lambda>log r. invoked_methods log =
         take (length (invoked_methods log)) [''decreaseLiquidity'', ''collect'', ''burn'', ''mint'']"])
     (intro all_from_rules; simp add: assms position_invalid_def invoked_methods_def)

lemma chatbot_create_methods:
  assumes "get_liquidity_position w [] pool = Inr position" "\<not> obj_truthy position"
  shows "\<forall>s. snd (chatbot_rebalance_liquidity w tick_a tick_b pool token0 token1 amount0 amount1)
              = Inr s \<longrightarrow>
           invoked_methods (fst (chatbot_rebalance_liquidity w tick_a tick_b pool token0 token1
              amount0 amount1)) =
             replicate (missing_approvals (fst (chatbot_rebalance_liquidity w tick_a tick_b pool
               token0 token1 amount0 amount1))) ''approve'' @ [''mint'']
           \<and> missing_approvals (fst (chatbot_rebalance_liquidity w tick_a tick_b pool
               token0 token1 amount0 amount1)) \<le> 2"
  unfolding chatbot_unfold
  by (rule all_fromD [where C = "\<lambda>log r. \<forall>s. r = Inr s \<longrightarrow>
           invoked_methods log = replicate (missing_approvals log) ''approve'' @ [''mint'']
           \<and> missing_approvals log \<le> 2"])
     (intro all_from_rules; clarsimp simp: assms invoked_methods_def)

lemma chatbot_rebalance_methods:
  assumes "get_liquidity_position w [] pool = Inr position" "obj_truthy position"
  shows "\<forall>s. snd (chatbot_rebalance_liquidity w tick_a tick_b pool token0 token1 amount0 amount1)
              = Inr s \<longrightarrow> s \<noteq> invalid_position_message \<longrightarrow>
           invoked_methods (fst (chatbot_rebalance_liquidity w tick_a tick_b pool token0 token1
              amount0 amount1)) = [''decreaseLiquidity'', ''collect'', ''burn'', ''mint'']"
  unfolding chatbot_unfold
  by (rule all_fromD [where C = "\<lambda>log r. \<forall>s. r = Inr s \<longrightarrow> s \<noteq> invalid_position_message \<longrightarrow>
           invoked_methods log = [''decreaseLiquidity'', ''collect'', ''burn'', ''mint'']"])
     (intro all_from_rules; clarsimp simp: assms invoked_methods_def)

lemma chatbot_rebalance_prefix:
  assumes "get_liquidity_position w [] pool = Inr (Dict d)"
    and "py_truthy (dict_get d ''tokenId'' PNone)"
    and "dict_get d ''liquidity'' PNone \<noteq> PStr ''0''"
  shows "invoked_methods (fst (chatbot_rebalance_liquidity w tick_a tick_b pool token0 token1
            amount0 amount1)) =
         take (length (invoked_methods (fst (chatbot_rebalance_liquidity w tick_a tick_b pool
            token0 token1 amount0 amount1))))
           [''decreaseLiquidity'', ''collect'', ''burn'', ''mint'']"
proof -
  have nonempty: "d \<noteq> []"
    using assms(2) by (auto simp: dict_get_def)
  show ?thesis
    unfolding chatbot_unfold
    by (rule all_fromD [where C = "\<lambda>log r. invoked_methods log =
           take (length (invoked_methods log)) [''decreaseLiquidity'', ''collect'', ''burn'', ''mint'']"])
       (intro all_from_rules;
        clarsimp simp: assms nonempty py_get_def chatbot_position_invalid_def invoked_methods_def)
qed

lemma test_chatbot_burn_reverts:
  "snd (chatbot_rebalance_liquidity position_burn_reverts_wallet 1000 2000 ''0xPoolAddress''
          ''0xToken0Address'' ''0xToken1Address'' ''1000000000000000000'' ''2000000000000000000'')
     = Inl (SdkError ''reverted'')
   \<and> invoked_methods (fst (chatbot_rebalance_liquidity position_burn_reverts_wallet 1000 2000
          ''0xPoolAddress'' ''0xToken0Address'' ''0xToken1Address'' ''1000000000000000000''
          ''2000000000000000000''))
     = [''decreaseLiquidity'', ''collect'', ''burn'']"
  unfolding chatbot_unfold
  by (rule all_from_both [where f = invoked_methods])
     (intro all_from_rules; clarsimp simp: eval_simps invoked_methods_def)

lemma test_chatbot_unapproved_invocations:
  "snd (chatbot_rebalance_liquidity unapproved_wallet 1000 2000 ''0xPoolAddress''
          ''0xToken0Address'' ''0xToken1Address'' ''1000000000000000000'' ''2000000000000000000'')
     = Inr ''Liquidity position created with token ID 5678 in pool 0xPoolAddress with tick range [1000, 2000].''
   \<and> invocations (fst (chatbot_rebalance_liquidity unapproved_wallet 1000 2000 ''0xPoolAddress''
          ''0xToken0Address'' ''0xToken1Address'' ''1000000000000000000'' ''2000000000000000000''))
     = [(''0xToken0Address'', ''approve'',
           [(''spender'', PStr ''0x27F971cb582BF9E50F397e4d29a5C7A34f11faA2''),
            (''value'', PStr ''1000000000000000000'')]),
        (''0xToken1Address'', ''approve'',
           [(''spender'', PStr ''0x27F971cb582BF9E50F397e4d29a5C7A34f11faA2''),
            (''value'', PStr ''2000000000000000000'')]),
        (''0x27F971cb582BF9E50F397e4d29a5C7A34f11faA2'', ''mint'',
           [(''token0'', PStr ''0xToken0Address''), (''token1'', PStr ''0xToken1Address''),
            (''fee'', PInt 3000), (''tickLower'', PInt 1000), (''tickUpper'', PInt 2000),
            (''amount0Desired'', PStr ''1000000000000000000''),
            (''amount1Desired'', PStr ''2000000000000000000''),
            (''amount0Min'', PStr ''0''), (''amount1Min'', PStr ''0''),
            (''recipient'', PStr ''0xDummyWalletAddress''), (''deadline'', PInt 9999999999)])]"
  unfolding chatbot_unfold
  by (rule all_from_both [where f = invocations])
     (intro all_from_rules;
      clarsimp simp: eval_simps args_defs chatbot_NM_POSITION_MANAGER_def)

text \<open>
  C1, as the code has it. The branch follows the indication of an existing position
  alone (the flag in the core package, the truthiness of the position the wallet
  reports in the chatbot). With no existing position the core action issues exactly one
  contract invocation, a \<^verbatim>\<open>mint\<close>, in every run; the chatbot, when it returns, has
  issued one \<^verbatim>\<open>approve\<close> for each token approval the wallet reported missing, none to
  two, and then one \<^verbatim>\<open>mint\<close>. With an existing position that passes validation, the
  invocations of every run, in both implementations, are an initial part of
  \<^verbatim>\<open>decreaseLiquidity\<close>, \<^verbatim>\<open>collect\<close>, \<^verbatim>\<open>burn\<close>, \<^verbatim>\<open>mint\<close> (a run cut short by an
  exception stops inside the sequence), and all four, so exactly 4, when the call
  returns.
\<close>

theorem invocation_counts:
  "invoked_methods (fst (rebalance_liquidity w tick_a tick_b pool token0 token1 amount0Desired
      amount1Desired False existing_tokenId existing_liquidity)) = [''mint'']
   \<and> (py_truthy existing_tokenId \<and> py_int existing_liquidity = Inr n \<and> n \<noteq> 0
      \<longrightarrow> invoked_methods (fst (rebalance_liquidity w tick_a tick_b pool token0 token1
              amount0Desired amount1Desired True existing_tokenId existing_liquidity)) =
           take (length (invoked_methods (fst (rebalance_liquidity w tick_a tick_b pool token0
              token1 amount0Desired amount1Desired True existing_tokenId existing_liquidity))))
             [''decreaseLiquidity'', ''collect'', ''burn'', ''mint''])
   \<and> (py_truthy existing_tokenId \<and> py_int existing_liquidity = Inr n \<and> n \<noteq> 0
       \<and> snd (rebalance_liquidity w tick_a tick_b pool token0 token1 amount0Desired
                amount1Desired True existing_tokenId existing_liquidity) = Inr s
      \<longrightarrow> invoked_methods (fst (rebalance_liquidity w tick_a tick_b pool token0 token1
              amount0Desired amount1Desired True existing_tokenId existing_liquidity)) =
           [''decreaseLiquidity'', ''collect'', ''burn'', ''mint''])
   \<and> (get_liquidity_position w [] pool = Inr position \<and> \<not> obj_truthy position
       \<and> snd (chatbot_rebalance_liquidity w tick_a tick_b pool token0 token1 amount0Desired
                amount1Desired) = Inr s'
      \<longrightarrow> invoked_methods (fst (chatbot_rebalance_liquidity w tick_a tick_b pool token0 token1
              amount0Desired amount1Desired)) =
             replicate (missing_approvals (fst (chatbot_rebalance_liquidity w tick_a tick_b pool
               token0 token1 amount0Desired amount1Desired))) ''approve'' @ [''mint'']
          \<and> missing_approvals (fst (chatbot_rebalance_liquidity w tick_a tick_b pool
               token0 token1 amount0Desired amount1Desired)) \<le> 2)
   \<and> (get_liquidity_position w [] pool = Inr position \<and> obj_truthy position
       \<and> snd (chatbot_rebalance_liquidity w tick_a tick_b pool token0 token1 amount0Desired
                amount1Desired) = Inr s'
       \<and> s' \<noteq> invalid_position_message
      \<longrightarrow> invoked_methods (fst (chatbot_rebalance_liquidity w tick_a tick_b pool token0 token1
              amount0Desired amount1Desired)) =
           [''decreaseLiquidity'', ''collect'', ''burn'', ''mint''])
   \<and> (get_liquidity_position w [] pool = Inr (Dict d)
       \<and> py_truthy (dict_get d ''tokenId'' PNone)
       \<and> dict_get d ''liquidity'' PNone \<noteq> PStr ''0''
      \<longrightarrow> invoked_methods (fst (chatbot_rebalance_liquidity w tick_a tick_b pool token0 token1
              amount0Desired amount1Desired)) =
           take (length (invoked_methods (fst (chatbot_rebalance_liquidity w tick_a tick_b pool
              token0 token1 amount0Desired amount1Desired))))
             [''decreaseLiquidity'', ''collect'', ''burn'', ''mint''])"
proof -
  have rebalance_returned:
    "py_truthy existing_tokenId \<and> py_int existing_liquidity = Inr n \<and> n \<noteq> 0
       \<and> snd (rebalance_liquidity w tick_a tick_b pool token0 token1 amount0Desired
                amount1Desired True existing_tokenId existing_liquidity) = Inr s
      \<longrightarrow> invoked_methods (fst (rebalance_liquidity w tick_a tick_b pool token0 token1
              amount0Desired amount1Desired True existing_tokenId existing_liquidity)) =
           [''decreaseLiquidity'', ''collect'', ''burn'', ''mint'']"
    using core_rebalance_run [of existing_tokenId existing_liquidity n w tick_a tick_b pool
        token0 token1 amount0Desired amount1Desired]
    by (auto simp: invoked_methods_def)
  show ?thesis
    using core_create_methods [of w tick_a tick_b pool token0 token1 amount0Desired
        amount1Desired existing_tokenId existing_liquidity]
      core_rebalance_prefix [of existing_tokenId existing_liquidity n w tick_a tick_b pool
        token0 token1 amount0Desired amount1Desired]
      rebalance_returned
      chatbot_create_methods [of w pool position tick_a tick_b token0 token1 amount0Desired
        amount1Desired]
      chatbot_rebalance_methods [of w pool position tick_a tick_b token0 token1 amount0Desired
        amount1Desired]
      chatbot_rebalance_prefix [of w pool d tick_a tick_b token0 token1 amount0Desired
        amount1Desired]
    by blast
qed

theorem invocation_counts_witness:
  "invoked_methods (fst (rebalance_liquidity test_wallet 1000 2000 ''0xPoolAddress''
      ''0xToken0Address'' ''0xToken1Address'' ''1000000000000000000'' ''2000000000000000000''
      False PNone PNone)) = [''mint'']
   \<and> invoked_methods (fst (rebalance_liquidity test_wallet 1000 2000 ''0xPoolAddress''
      ''0xToken0Address'' ''0xToken1Address'' ''1000000000000000000'' ''2000000000000000000''
      True (PStr ''1234'') (PStr ''1000''))) = [''decreaseLiquidity'', ''collect'', ''burn'', ''mint'']
   \<and> missing_approvals (fst (chatbot_rebalance_liquidity unapproved_wallet 1000 2000
      ''0xPoolAddress'' ''0xToken0Address'' ''0xToken1Address'' ''1000000000000000000''
      ''2000000000000000000'')) = 2
   \<and> invoked_methods (fst (chatbot_rebalance_liquidity unapproved_wallet 1000 2000
      ''0xPoolAddress'' ''0xToken0Address'' ''0xToken1Address'' ''1000000000000000000''
      ''2000000000000000000'')) = [''approve'', ''approve'', ''mint'']
   \<and> snd (chatbot_rebalance_liquidity position_burn_reverts_wallet 1000 2000
      ''0xPoolAddress'' ''0xToken0Address'' ''0xToken1Address'' ''1000000000000000000''
      ''2000000000000000000'') = Inl (SdkError ''reverted'')
   \<and> invoked_methods (fst (chatbot_rebalance_liquidity position_burn_reverts_wallet 1000 2000
      ''0xPoolAddress'' ''0xToken0Address'' ''0xToken1Address'' ''1000000000000000000''
      ''2000000000000000000''))
     = take 3 [''decreaseLiquidity'', ''collect'', ''burn'', ''mint'']"
proof -
  note core_inst = invocation_counts [of test_wallet 1000 2000 "''0xPoolAddress''"
      "''0xToken0Address''" "''0xToken1Address''" "''1000000000000000000''"
      "''2000000000000000000''" "PStr ''1234''" "PStr ''1000''" 1000]
  note create_inst = invocation_counts [of test_wallet 1000 2000 "''0xPoolAddress''"
      "''0xToken0Address''" "''0xToken1Address''" "''1000000000000000000''"
      "''2000000000000000000''" PNone PNone]
  note chat_inst = invocation_counts [of unapproved_wallet 1000 2000 "''0xPoolAddress''"
      "''0xToken0Address''" "''0xToken1Address''" "''1000000000000000000''"
      "''2000000000000000000''" _ _ _ _ "Scalar PNone"]
  have valid: "py_truthy (PStr ''1234'') \<and> py_int (PStr ''1000'') = Inr 1000 \<and> (1000 :: int) \<noteq> 0
     \<and> snd (rebalance_liquidity test_wallet 1000 2000 ''0xPoolAddress'' ''0xToken0Address''
            ''0xToken1Address'' ''1000000000000000000'' ''2000000000000000000''
            True (PStr ''1234'') (PStr ''1000''))
       = Inr ''Liquidity position rebalanced. Old position (token ID 1234) removed. New liquidity position created with token ID 5678 in pool 0xPoolAddress with tick range [1000, 2000].''"
    by (simp add: test_rebalance_returns py_int_examples del: py_int.simps)
  have none: "get_liquidity_position unapproved_wallet [] ''0xPoolAddress'' = Inr (Scalar PNone)
     \<and> \<not> obj_truthy (Scalar PNone)
     \<and> snd (chatbot_rebalance_liquidity unapproved_wallet 1000 2000 ''0xPoolAddress''
          ''0xToken0Address'' ''0xToken1Address'' ''1000000000000000000'' ''2000000000000000000'')
       = Inr ''Liquidity position created with token ID 5678 in pool 0xPoolAddress with tick range [1000, 2000].''"
    using test_chatbot_unapproved_returns by (simp add: wallet_defs)
  have a: "invoked_methods (fst (rebalance_liquidity test_wallet 1000 2000 ''0xPoolAddress''
      ''0xToken0Address'' ''0xToken1Address'' ''1000000000000000000'' ''2000000000000000000''
      False PNone PNone)) = [''mint'']"
    using create_inst by blast
  have b: "invoked_methods (fst (rebalance_liquidity test_wallet 1000 2000 ''0xPoolAddress''
      ''0xToken0Address'' ''0xToken1Address'' ''1000000000000000000'' ''2000000000000000000''
      True (PStr ''1234'') (PStr ''1000''))) = [''decreaseLiquidity'', ''collect'', ''burn'', ''mint'']"
    using core_inst [THEN conjunct2, THEN conjunct2, THEN conjunct1, rule_format, OF valid] .
  have c: "invoked_methods (fst (chatbot_rebalance_liquidity unapproved_wallet 1000 2000
      ''0xPoolAddress'' ''0xToken0Address'' ''0xToken1Address'' ''1000000000000000000''
      ''2000000000000000000''))
      = replicate (missing_approvals (fst (chatbot_rebalance_liquidity unapproved_wallet 1000 2000
      ''0xPoolAddress'' ''0xToken0Address'' ''0xToken1Address'' ''1000000000000000000''
      ''2000000000000000000''))) ''approve'' @ [''mint'']"
    using chat_inst [THEN conjunct2, THEN conjunct2, THEN conjunct2, THEN conjunct1, rule_format,
        OF none]
    by blast
  have two: "missing_approvals (fst (chatbot_rebalance_liquidity unapproved_wallet 1000 2000
      ''0xPoolAddress'' ''0xToken0Address'' ''0xToken1Address'' ''1000000000000000000''
      ''2000000000000000000'')) = 2"
    using test_chatbot_unapproved_returns by blast
  have "replicate 2 ''approve'' @ [''mint''] = [''approve'', ''approve'', ''mint'']"
    by (simp add: numeral_2_eq_2)
  with c two
  have d: "invoked_methods (fst (chatbot_rebalance_liquidity unapproved_wallet 1000 2000
      ''0xPoolAddress'' ''0xToken0Address'' ''0xToken1Address'' ''1000000000000000000''
      ''2000000000000000000'')) = [''approve'', ''approve'', ''mint'']"
    by simp
  note cut_inst = invocation_counts [of position_burn_reverts_wallet 1000 2000 "''0xPoolAddress''"
      "''0xToken0Address''" "''0xToken1Address''" "''1000000000000000000''"
      "''2000000000000000000''" _ _ _ _ _ _
      "[(''tokenId'', PStr ''1234''), (''liquidity'', PStr ''1000'')]"]
  have valid_position:
    "get_liquidity_position position_burn_reverts_wallet [] ''0xPoolAddress''
       = Inr (Dict [(''tokenId'', PStr ''1234''), (''liquidity'', PStr ''1000'')])
     \<and> py_truthy (dict_get [(''tokenId'', PStr ''1234''), (''liquidity'', PStr ''1000'')]
           ''tokenId'' PNone)
     \<and> dict_get [(''tokenId'', PStr ''1234''), (''liquidity'', PStr ''1000'')] ''liquidity'' PNone
         \<noteq> PStr ''0''"
    by (simp add: wallet_defs dict_get_def)
  have three: "length (invoked_methods (fst (chatbot_rebalance_liquidity
      position_burn_reverts_wallet 1000 2000 ''0xPoolAddress'' ''0xToken0Address''
      ''0xToken1Address'' ''1000000000000000000'' ''2000000000000000000''))) = 3"
    using test_chatbot_burn_reverts by simp
  have e: "invoked_methods (fst (chatbot_rebalance_liquidity position_burn_reverts_wallet 1000 2000
      ''0xPoolAddress'' ''0xToken0Address'' ''0xToken1Address'' ''1000000000000000000''
      ''2000000000000000000''))
     = take 3 [''decreaseLiquidity'', ''collect'', ''burn'', ''mint'']"
    using cut_inst [THEN conjunct2, THEN conjunct2, THEN conjunct2, THEN conjunct2,
        THEN conjunct2, rule_format, OF valid_position]
    unfolding three .
  have f: "snd (chatbot_rebalance_liquidity position_burn_reverts_wallet 1000 2000
      ''0xPoolAddress'' ''0xToken0Address'' ''0xToken1Address'' ''1000000000000000000''
      ''2000000000000000000'') = Inl (SdkError ''reverted'')"
    using test_chatbot_burn_reverts by blast
  from a b two d e f show ?thesis by blast
qed

text \<open>
  Against C1 as stated: with no position and no approval in place the chatbot issues
  three contract invocations, two approvals and the mint, and returns.
\<close>

theorem chatbot_create_issues_approvals:
  "get_liquidity_position unapproved_wallet [] ''0xPoolAddress'' = Inr (Scalar PNone)
   \<and> \<not> obj_truthy (Scalar PNone)
   \<and> snd (chatbot_rebalance_liquidity unapproved_wallet 1000 2000 ''0xPoolAddress''
          ''0xToken0Address'' ''0xToken1Address'' ''1000000000000000000'' ''2000000000000000000'')
     = Inr ''Liquidity position created with token ID 5678 in pool 0xPoolAddress with tick range [1000, 2000].''
   \<and> invocations (fst (chatbot_rebalance_liquidity unapproved_wallet 1000 2000 ''0xPoolAddress''
          ''0xToken0Address'' ''0xToken1Address'' ''1000000000000000000'' ''2000000000000000000''))
     = [(''0xToken0Address'', ''approve'',
           [(''spender'', PStr ''0x27F971cb582BF9E50F397e4d29a5C7A34f11faA2''),
            (''value'', PStr ''1000000000000000000'')]),
        (''0xToken1Address'', ''approve'',
           [(''spender'', PStr ''0x27F971cb582BF9E50F397e4d29a5C7A34f11faA2''),
            (''value'', PStr ''2000000000000000000'')]),
        (''0x27F971cb582BF9E50F397e4d29a5C7A34f11faA2'', ''mint'',
           [(''token0'', PStr ''0xToken0Address''), (''token1'', PStr ''0xToken1Address''),
            (''fee'', PInt 3000), (''tickLower'', PInt 1000), (''tickUpper'', PInt 2000),
            (''amount0Desired'', PStr ''1000000000000000000''),
            (''amount1Desired'', PStr ''2000000000000000000''),
            (''amount0Min'', PStr ''0''), (''amount1Min'', PStr ''0''),
            (''recipient'', PStr ''0xDummyWalletAddress''), (''deadline'', PInt 9999999999)])]"
  using test_chatbot_unapproved_invocations by (simp add: wallet_defs)


end
